theory Spec2Isabelle
  imports Main
begin

section \<open>JavaScript strings\<close>

text \<open>
  A JavaScript string is modelled as a \<^typ>\<open>string\<close>: a list of code units, here the
  code units \<open>U+0000\<close> to \<open>U+00FF\<close>, one \<^typ>\<open>char\<close> each. The functions below are
  the methods of \<open>String.prototype\<close> and the regular expressions that the client and
  the server use, written as list functions.
\<close>

definition isWhiteSpace :: "char \<Rightarrow> bool" where
  \<comment> \<open>the class \<open>\s\<close> of a regular expression, also what \<open>trim()\<close> strips: tab, LF, VT, FF,
      CR, space and the no-break space\<close>
  "isWhiteSpace c \<longleftrightarrow>
     c = CHR 0x09 \<or> c = CHR 0x0A \<or> c = CHR 0x0B \<or> c = CHR 0x0C \<or> c = CHR 0x0D \<or>
     c = CHR 0x20 \<or> c = CHR 0xA0"

definition trim :: "string \<Rightarrow> string" where
  \<comment> \<open>\<open>s.trim()\<close>\<close>
  "trim s = rev (dropWhile isWhiteSpace (rev (dropWhile isWhiteSpace s)))"

fun split :: "char \<Rightarrow> string \<Rightarrow> string list" where
  \<comment> \<open>\<open>s.split(c)\<close> for a one-character separator: the empty string gives one empty piece\<close>
  "split c [] = [[]]"
| "split c (x # xs) =
     (if x = c then [] # split c xs
      else (case split c xs of [] \<Rightarrow> [[x]] | y # ys \<Rightarrow> (x # y) # ys))"

definition startsWith :: "string \<Rightarrow> string \<Rightarrow> bool" where
  \<comment> \<open>\<open>s.startsWith(p)\<close>\<close>
  "startsWith s p \<longleftrightarrow> take (length p) s = p"

fun indexOf :: "string \<Rightarrow> string \<Rightarrow> nat option" where
  \<comment> \<open>\<open>s.indexOf(p)\<close>, with \<open>None\<close> for \<open>-1\<close>\<close>
  "indexOf [] p = (if p = [] then Some 0 else None)"
| "indexOf (x # xs) p =
     (if startsWith (x # xs) p then Some 0 else map_option Suc (indexOf xs p))"

section \<open>The quick-questions block (client/src/components/MessageItem.tsx)\<close>

definition QQ_OPEN :: string where
  "QQ_OPEN = ''<QUICK_QUESTIONS>''"

definition QQ_CLOSE :: string where
  "QQ_CLOSE = ''</QUICK_QUESTIONS>''"

text \<open>
  The regular expression \<open>/<QUICK_QUESTIONS>([\s\S]*?)<\/QUICK_QUESTIONS>/\<close>. It has no
  flag, so it finds the leftmost match; the group is lazy, so the match ends at the first
  closing tag after the opening one. A later opening tag cannot match where the first one
  does not (a closing tag after the later one is also after the first), so the match, when
  there is one, starts at the first opening tag. The result is the text before the match,
  the group and the text after the match.
\<close>

definition matchQuickQuestions :: "string \<Rightarrow> (string \<times> string \<times> string) option" where
  "matchQuickQuestions content =
     (case indexOf content QQ_OPEN of
        None \<Rightarrow> None
      | Some i \<Rightarrow>
          (let rest = drop (i + length QQ_OPEN) content in
           case indexOf rest QQ_CLOSE of
             None \<Rightarrow> None
           | Some j \<Rightarrow> Some (take i content, take j rest, drop (j + length QQ_CLOSE) rest)))"

record parsed =
  quickQuestions :: "string list"
  cleanContent :: string

definition initialParsed :: parsed where
  \<comment> \<open>\<open>useState<string[]>([])\<close> and \<open>useState<string>("")\<close>\<close>
  "initialParsed = \<lparr>quickQuestions = [], cleanContent = []\<rparr>"

definition isUser :: "string \<Rightarrow> bool" where
  \<comment> \<open>\<open>const isUser = message.role === "user"\<close>\<close>
  "isUser r \<longleftrightarrow> r = ''user''"

definition processContent :: "string \<Rightarrow> string \<Rightarrow> parsed \<Rightarrow> parsed" where
  \<comment> \<open>the effect "Process the content to extract quick questions", on the role and the
      content of the message\<close>
  "processContent msgRole content st =
     (if isUser msgRole then st\<lparr>cleanContent := content\<rparr>
      else
        (case matchQuickQuestions content of
           Some (before, inner, after) \<Rightarrow>
             if inner \<noteq> [] then
               st\<lparr>quickQuestions := filter (\<lambda>q. length q > 0) (map trim (split CHR 0x0A (trim inner))),
                  cleanContent := trim (before @ after)\<rparr>
             else st\<lparr>cleanContent := content, quickQuestions := []\<rparr>
         | None \<Rightarrow> st\<lparr>cleanContent := content, quickQuestions := []\<rparr>))"


subsection \<open>The plain text of the typing animation\<close>

text \<open>
  \<open>s.replace(re, r)\<close> with a global regular expression that cannot match the empty string:
  the string is scanned from the left; where the expression matches, the replacement is
  emitted and the scan goes on after the match, elsewhere one character is copied. A
  matcher gives, for the text at the current position, the length of the match and its
  replacement.
\<close>

type_synonym matcher = "string \<Rightarrow> (nat \<times> string) option"

function replaceAll :: "matcher \<Rightarrow> string \<Rightarrow> string" where
  "replaceAll m [] = []"
| "replaceAll m (x # xs) =
     (case m (x # xs) of
        Some (n, r) \<Rightarrow> r @ replaceAll m (drop (n - 1) xs)
      | None \<Rightarrow> x # replaceAll m xs)"
  by pat_completeness auto
termination
  by (relation "measure (\<lambda>(m, s). length s)") auto

definition matchLiteral :: "string \<Rightarrow> string \<Rightarrow> matcher" where
  \<comment> \<open>a literal \<open>p\<close>, replaced by \<open>r\<close>\<close>
  "matchLiteral p r s = (if startsWith s p then Some (length p, r) else None)"

definition BACKTICK :: char where
  "BACKTICK = CHR 0x60"

definition FENCE :: string where
  "FENCE = [BACKTICK, BACKTICK, BACKTICK]"

definition matchFence :: matcher where
  \<comment> \<open>a fence, the shortest text, a fence; replaced by \<open>(code block)\<close>\<close>
  "matchFence s =
     (if startsWith s FENCE then
        (case indexOf (drop (length FENCE) s) FENCE of
           Some j \<Rightarrow> Some (length FENCE + j + length FENCE, ''(code block)'')
         | None \<Rightarrow> None)
      else None)"

definition matchLink :: matcher where
  \<comment> \<open>\<open>\[([^\]]+)\]\([^)]+\)\<close>, replaced by its group \<open>$1\<close>. Both classes are greedy and
      each is followed by the character it excludes, so each takes the whole run.\<close>
  "matchLink s =
     (case s of
        [] \<Rightarrow> None
      | c # rest \<Rightarrow>
          if c \<noteq> CHR ''['' then None
          else
            (let label = takeWhile (\<lambda>d. d \<noteq> CHR '']'') rest;
                 after = dropWhile (\<lambda>d. d \<noteq> CHR '']'') rest;
                 url = takeWhile (\<lambda>d. d \<noteq> CHR '')'') (drop 2 after)
             in if label \<noteq> [] \<and> startsWith after ''](''
                   \<and> url \<noteq> [] \<and> startsWith (drop (2 + length url) after) '')''
                then Some (1 + length label + 2 + length url + 1, label)
                else None))"

definition matchHeading :: matcher where
  \<comment> \<open>\<open>#{1,6}\s\<close>, replaced by nothing: one to six \<open>#\<close> and then a white space. A run of
      more than six does not match at its start (after six of them comes a \<open>#\<close>).\<close>
  "matchHeading s =
     (let n = length (takeWhile (\<lambda>d. d = CHR ''#'') s)
      in if 1 \<le> n \<and> n \<le> 6 \<and> n < length s \<and> isWhiteSpace (s ! n)
         then Some (n + 1, [])
         else None)"

definition plainTextContent :: "string \<Rightarrow> string" where
  \<comment> \<open>the chain of \<open>replace\<close> calls that fills \<open>plainTextContent.current\<close>, in its order\<close>
  "plainTextContent fullContent =
     replaceAll matchHeading
       (replaceAll matchLink
         (replaceAll matchFence
           (replaceAll (matchLiteral [BACKTICK] [])
             (replaceAll (matchLiteral ''*'' [])
               (replaceAll (matchLiteral ''**'' []) fullContent)))))"

section \<open>The animation state of a conversation view (ChatContent)\<close>

record Message =
  msg_id :: int
  msg_content :: string
  msg_role :: string
  msg_conversationId :: int
  msg_createdAt :: string

record ChatContent =
  animatedMessageId :: "int option"
  prevMessagesRef :: "Message list"
  conversationIdRef :: "int option"


definition resetOnSwitch :: "int \<Rightarrow> ChatContent \<Rightarrow> ChatContent" where
  \<comment> \<open>the effect "Reset animation state when switching conversations"\<close>
  "resetOnSwitch conversationId st =
     (if Some conversationId \<noteq> conversationIdRef st
      then st\<lparr>animatedMessageId := None, prevMessagesRef := [],
              conversationIdRef := Some conversationId\<rparr>
      else st)"

definition trackNewMessages :: "Message list \<Rightarrow> ChatContent \<Rightarrow> ChatContent" where
  \<comment> \<open>the effect "Track new AI messages to apply typing animation only to the newest one"\<close>
  "trackNewMessages messages st =
     (if length (prevMessagesRef st) = 0 \<and> length messages > 0
      then st\<lparr>prevMessagesRef := messages\<rparr>
      else if length messages > length (prevMessagesRef st) then
        (let newMessages = drop (length (prevMessagesRef st)) messages;
             newAiMessages = filter (\<lambda>m. msg_role m = ''assistant'') newMessages;
             st' = (if length newAiMessages > 0
                    then st\<lparr>animatedMessageId :=
                              Some (msg_id (newAiMessages ! (length newAiMessages - 1)))\<rparr>
                    else st)
         in st'\<lparr>prevMessagesRef := messages\<rparr>)
      else st)"

definition handleTypingComplete :: "int \<Rightarrow> ChatContent \<Rightarrow> ChatContent" where
  "handleTypingComplete messageId st =
     (if Some messageId = animatedMessageId st then st\<lparr>animatedMessageId := None\<rparr> else st)"

definition isNew :: "ChatContent \<Rightarrow> Message \<Rightarrow> bool" where
  \<comment> \<open>the \<open>isNew\<close> property that ChatContent gives to each MessageItem\<close>
  "isNew st message \<longleftrightarrow>
     msg_role message = ''assistant'' \<and> Some (msg_id message) = animatedMessageId st"

definition commitRender :: "bool \<Rightarrow> bool \<Rightarrow> int \<Rightarrow> Message list \<Rightarrow> ChatContent \<Rightarrow> ChatContent" where
  \<comment> \<open>one commit: the effects whose dependency changed run in the order of their
      declaration (\<open>[conversationId]\<close> first, \<open>[messages]\<close> second)\<close>
  "commitRender conversationChanged messagesChanged conversationId messages st =
     (let st1 = (if conversationChanged then resetOnSwitch conversationId st else st)
      in if messagesChanged then trackNewMessages messages st1 else st1)"


section \<open>The completion dispatcher (server/ai-service.ts)\<close>

datatype role = User | Assistant | System

record AIMessage =
  role :: role
  content :: string

datatype error = Error (message: string)
  \<comment> \<open>a JavaScript \<open>Error\<close> object with its \<open>message\<close>\<close>

record geminiContent =
  \<comment> \<open>\<open>{role: geminiRole, parts: [{ text: messageContent }]}\<close>, the parts as their texts\<close>
  geminiRole :: string
  parts :: "string list"

datatype chunk = TextChunk string | ObjectChunk string
  \<comment> \<open>a piece of a Mistral answer: a string, or an object, given with its \<open>JSON.stringify\<close>\<close>

datatype mistralContent = ContentString string | ContentArray "chunk list" | ContentOther

datatype request =
    OpenAIRequest string "AIMessage list"
  | MistralRequest string "AIMessage list"
  | GoogleRequest string "geminiContent list"

text \<open>
  The three vendor SDKs are outside the repository. Each call is a parameter: it gets the
  requests made so far (so the same request may fail once and succeed later), the model
  name and the messages, and fails with an error or returns what the caller reads from the
  response: the content of the first choice (OpenAI, \<open>None\<close> for \<open>null\<close>), the contents of
  the choices (Mistral, \<open>None\<close> for a response without \<open>choices\<close>), the text (Google).
  Every function of the dispatcher takes the list of requests made so far and returns it
  extended.
\<close>

record sdk =
  openai_create :: "request list \<Rightarrow> string \<Rightarrow> AIMessage list \<Rightarrow> error + string option"
  mistral_complete :: "request list \<Rightarrow> string \<Rightarrow> AIMessage list \<Rightarrow> error + mistralContent list option"
  gemini_generateContent :: "request list \<Rightarrow> string \<Rightarrow> geminiContent list \<Rightarrow> error + string"

record env =
  \<comment> \<open>\<open>process.env\<close>\<close>
  OPENAI_API_KEY :: "string option"
  GOOGLE_API_KEY :: "string option"
  MISTRAL_API_KEY :: "string option"

definition configured :: "string option \<Rightarrow> bool" where
  \<comment> \<open>\<open>process.env.X\<close> as a condition: set and not empty\<close>
  "configured v \<longleftrightarrow> (case v of None \<Rightarrow> False | Some k \<Rightarrow> k \<noteq> [])"

definition openaiInstruction :: string where
  "openaiInstruction = ''You are a helpful AI assistant. After providing your answer, suggest 4 follow-up questions that might be relevant to continue the conversation. \<newline>    \<newline>Format your response like this:\<newline>1. Answer the user's question normally and completely.\<newline>2. At the end of your response, add:\<newline><QUICK_QUESTIONS>\<newline>Question 1\<newline>Question 2\<newline>Question 3\<newline>Question 4\<newline></QUICK_QUESTIONS>\<newline>\<newline>Keep the questions concise, focused, and diverse to explore different aspects of the topic. Make sure questions are relevant to the context of the conversation.''"

definition mistralInstruction :: string where
  "mistralInstruction = ''You are a helpful AI assistant. After providing your answer, suggest 4 follow-up questions that might be relevant to continue the conversation. \<newline>      \<newline>Format your response like this:\<newline>1. Answer the user's question normally and completely.\<newline>2. At the end of your response, add:\<newline><QUICK_QUESTIONS>\<newline>Question 1\<newline>Question 2\<newline>Question 3\<newline>Question 4\<newline></QUICK_QUESTIONS>\<newline>\<newline>Keep the questions concise, focused, and diverse to explore different aspects of the topic. Make sure questions are relevant to the context of the conversation.''"

definition quickQuestionsInstructions :: string where
  "quickQuestionsInstructions = ''\<newline>You are a helpful AI assistant. After providing your answer, suggest 4 follow-up questions that might be relevant to continue the conversation.\<newline>\<newline>Format your response like this:\<newline>1. Answer the user's question normally and completely.\<newline>2. At the end of your response, add:\<newline><QUICK_QUESTIONS>\<newline>Question 1\<newline>Question 2\<newline>Question 3\<newline>Question 4\<newline></QUICK_QUESTIONS>\<newline>\<newline>Keep the questions concise, focused, and diverse to explore different aspects of the topic. Make sure questions are relevant to the context of the conversation.\<newline>''"

definition openaiMessages :: "AIMessage list \<Rightarrow> AIMessage list" where
  \<comment> \<open>the messages that generateOpenAIChatCompletion sends\<close>
  "openaiMessages messages =
     (let hasSystemMessage = (\<exists>msg \<in> set messages. role msg = System);
          systemInstruction = \<lparr>role = System, content = openaiInstruction\<rparr>
      in if \<not> hasSystemMessage
         then systemInstruction # map (\<lambda>msg. \<lparr>role = role msg, content = content msg\<rparr>) messages
         else map (\<lambda>msg.
                if role msg = System
                then \<lparr>role = role msg,
                      content = content msg @ ''\<newline>\<newline>'' @ content systemInstruction\<rparr>
                else \<lparr>role = role msg, content = content msg\<rparr>) messages)"

definition mistralMessages :: "AIMessage list \<Rightarrow> AIMessage list" where
  \<comment> \<open>the \<open>formattedMessages\<close> that generateMistralChatCompletion sends\<close>
  "mistralMessages messages =
     (let hasSystemMessage = (\<exists>msg \<in> set messages. role msg = System);
          systemInstruction = \<lparr>role = System, content = mistralInstruction\<rparr>
      in if \<not> hasSystemMessage
         then systemInstruction # map (\<lambda>msg. \<lparr>role = role msg, content = content msg\<rparr>) messages
         else map (\<lambda>msg.
                if role msg = System
                then \<lparr>role = role msg,
                      content = content msg @ ''\<newline>\<newline>'' @ content systemInstruction\<rparr>
                else \<lparr>role = role msg, content = content msg\<rparr>) messages)"

fun geminiLoop :: "AIMessage list \<Rightarrow> string \<Rightarrow> geminiContent list \<Rightarrow> string \<times> geminiContent list" where
  \<comment> \<open>the loop \<open>for (const msg of messages)\<close> of generateGoogleChatCompletion, on
      \<open>systemPrompt\<close> and \<open>formattedMessages\<close>\<close>
  "geminiLoop [] systemPrompt formattedMessages = (systemPrompt, formattedMessages)"
| "geminiLoop (msg # rest) systemPrompt formattedMessages =
     (if role msg = System
      then geminiLoop rest (systemPrompt @ content msg @ ''\<newline>\<newline>'') formattedMessages
      else
        (let gRole = (if role msg = Assistant then ''model'' else ''user'')
         in if gRole = ''user'' \<and> systemPrompt \<noteq> [] \<and> length formattedMessages = 0
            then geminiLoop rest []
                   (formattedMessages @ [\<lparr>geminiRole = gRole, parts = [systemPrompt @ content msg]\<rparr>])
            else geminiLoop rest systemPrompt
                   (formattedMessages @ [\<lparr>geminiRole = gRole, parts = [content msg]\<rparr>])))"

definition geminiMessages :: "AIMessage list \<Rightarrow> geminiContent list" where
  \<comment> \<open>the \<open>contents\<close> that generateGoogleChatCompletion sends\<close>
  "geminiMessages messages =
     (case geminiLoop messages (quickQuestionsInstructions @ ''\<newline>\<newline>'') [] of
        (systemPrompt, formattedMessages) \<Rightarrow>
          if length formattedMessages = 0 \<and> systemPrompt \<noteq> []
          then formattedMessages @ [\<lparr>geminiRole = ''user'', parts = [systemPrompt]\<rparr>]
          else formattedMessages)"


type_synonym 'a call = "('a \<times> request list)"

definition generateOpenAIChatCompletion ::
  "sdk \<Rightarrow> AIMessage list \<Rightarrow> string \<Rightarrow> request list \<Rightarrow> (error + string) call" where
  "generateOpenAIChatCompletion api messages model tr =
     (let sent = openaiMessages messages;
          tr' = tr @ [OpenAIRequest model sent]
      in case openai_create api tr model sent of
           Inl e \<Rightarrow> (Inl e, tr')
         | Inr c \<Rightarrow> (Inr (case c of None \<Rightarrow> [] | Some text \<Rightarrow> text), tr'))"

definition chunkText :: "chunk \<Rightarrow> string" where
  \<comment> \<open>\<open>typeof chunk === 'string' ? chunk : JSON.stringify(chunk)\<close>\<close>
  "chunkText c = (case c of TextChunk t \<Rightarrow> t | ObjectChunk json \<Rightarrow> json)"

definition generateMistralChatCompletion ::
  "sdk \<Rightarrow> AIMessage list \<Rightarrow> string \<Rightarrow> request list \<Rightarrow> (error + string) call" where
  "generateMistralChatCompletion api messages model tr =
     (let sent = mistralMessages messages;
          tr' = tr @ [MistralRequest model sent]
      in case mistral_complete api tr model sent of
           Inl e \<Rightarrow> (Inl e, tr')
         | Inr choices \<Rightarrow>
             (case choices of
                None \<Rightarrow> (Inl (Error ''Empty response from Mistral API''), tr')
              | Some [] \<Rightarrow> (Inl (Error ''Empty response from Mistral API''), tr')
              | Some (c # _) \<Rightarrow>
                  (case c of
                     ContentString text \<Rightarrow> (Inr text, tr')
                   | ContentArray chunks \<Rightarrow> (Inr (concat (map chunkText chunks)), tr')
                   | ContentOther \<Rightarrow> (Inr [], tr'))))"

definition generateGoogleChatCompletion ::
  "sdk \<Rightarrow> AIMessage list \<Rightarrow> string \<Rightarrow> request list \<Rightarrow> (error + string) call" where
  "generateGoogleChatCompletion api messages model tr =
     (let sent = geminiMessages messages;
          tr' = tr @ [GoogleRequest model sent]
      in case gemini_generateContent api tr model sent of
           Inl e \<Rightarrow> (Inl e, tr')
         | Inr text \<Rightarrow> (Inr text, tr'))"

definition parseModel :: "string \<Rightarrow> string \<times> string" where
  \<comment> \<open>\<open>provider\<close> and \<open>modelName\<close>: \<open>parts[0]\<close> and \<open>parts[1]\<close> of \<open>model.split(':')\<close> when the
      model includes a colon (the split then has two pieces at least)\<close>
  "parseModel model =
     (if CHR '':'' \<in> set model then
        (case split CHR '':'' model of
           provider # modelName # _ \<Rightarrow> (provider, modelName)
         | _ \<Rightarrow> (''openai'', model))
      else (''openai'', model))"

definition orUnknown :: "string \<Rightarrow> string" where
  \<comment> \<open>\<open>error.message || 'Unknown error'\<close>\<close>
  "orUnknown m = (if m = [] then ''Unknown error'' else m)"

definition primaryAttempt ::
  "sdk \<Rightarrow> AIMessage list \<Rightarrow> string \<Rightarrow> string \<Rightarrow> request list \<Rightarrow> (error + string) call" where
  \<comment> \<open>the \<open>switch(provider)\<close> of generateChatCompletion\<close>
  "primaryAttempt api messages provider modelName tr =
     (if provider = ''openai'' then generateOpenAIChatCompletion api messages modelName tr
      else if provider = ''google'' then generateGoogleChatCompletion api messages modelName tr
      else if provider = ''mistral'' then generateMistralChatCompletion api messages modelName tr
      else (Inl (Error (''Unsupported AI provider: '' @ provider)), tr))"

definition failCompletion :: "error \<Rightarrow> request list \<Rightarrow> (error + string) call" where
  \<comment> \<open>the last two statements of the \<open>catch\<close> block\<close>
  "failCompletion err tr =
     (let errorMessage = orUnknown (message err)
      in (Inl (Error (''Failed to generate AI response: '' @ errorMessage)), tr))"

definition fallbackGoogle ::
  "sdk \<Rightarrow> env \<Rightarrow> AIMessage list \<Rightarrow> string \<Rightarrow> error \<Rightarrow> request list \<Rightarrow> (error + string) call" where
  \<comment> \<open>"Finally try Google as fallback if available"\<close>
  "fallbackGoogle api e messages provider err tr =
     (if configured (GOOGLE_API_KEY e) \<and> provider \<noteq> ''google'' then
        (case generateGoogleChatCompletion api messages ''gemini-2.0-flash'' tr of
           (Inr text, tr') \<Rightarrow> (Inr text, tr')
         | (Inl fallbackError, tr') \<Rightarrow> failCompletion err tr')
      else failCompletion err tr)"

definition fallbackOpenAI ::
  "sdk \<Rightarrow> env \<Rightarrow> AIMessage list \<Rightarrow> string \<Rightarrow> error \<Rightarrow> request list \<Rightarrow> (error + string) call" where
  \<comment> \<open>"Then try OpenAI as fallback if available"\<close>
  "fallbackOpenAI api e messages provider err tr =
     (if configured (OPENAI_API_KEY e) \<and> provider \<noteq> ''openai'' then
        (case generateOpenAIChatCompletion api messages ''gpt-3.5-turbo'' tr of
           (Inr text, tr') \<Rightarrow> (Inr text, tr')
         | (Inl fallbackError, tr') \<Rightarrow> fallbackGoogle api e messages provider err tr')
      else fallbackGoogle api e messages provider err tr)"

definition fallbackMistral ::
  "sdk \<Rightarrow> env \<Rightarrow> AIMessage list \<Rightarrow> string \<Rightarrow> error \<Rightarrow> request list \<Rightarrow> (error + string) call" where
  \<comment> \<open>"First try Mistral as fallback if available"\<close>
  "fallbackMistral api e messages provider err tr =
     (if configured (MISTRAL_API_KEY e) \<and> provider \<noteq> ''mistral'' then
        (case generateMistralChatCompletion api messages ''mistral-large-2'' tr of
           (Inr text, tr') \<Rightarrow> (Inr text, tr')
         | (Inl fallbackError, tr') \<Rightarrow> fallbackOpenAI api e messages provider err tr')
      else fallbackOpenAI api e messages provider err tr)"

definition generateChatCompletion ::
  "sdk \<Rightarrow> env \<Rightarrow> AIMessage list \<Rightarrow> string option \<Rightarrow> request list \<Rightarrow> (error + string) call" where
  \<comment> \<open>the model is \<open>None\<close> when the caller leaves it out: the default is \<open>"gpt-4o"\<close>\<close>
  "generateChatCompletion api e messages modelArg tr =
     (let model = (case modelArg of None \<Rightarrow> ''gpt-4o'' | Some m \<Rightarrow> m);
          (provider, modelName) = parseModel model
      in case primaryAttempt api messages provider modelName tr of
           (Inr text, tr') \<Rightarrow> (Inr text, tr')
         | (Inl err, tr') \<Rightarrow> fallbackMistral api e messages provider err tr')"

definition TITLE_PROMPT :: string where
  "TITLE_PROMPT = ''Generate a short, descriptive title (max 6 words) for a conversation that starts with the following message. Respond with ONLY the title, no quotes or additional text.''"

definition titleAttempt ::
  "sdk \<Rightarrow> string \<Rightarrow> string \<Rightarrow> string \<Rightarrow> request list \<Rightarrow> (error + string) call" where
  \<comment> \<open>the \<open>try\<close> block of generateConversationTitle, after the model is parsed\<close>
  "titleAttempt api firstUserMessage provider modelName tr =
     (if provider = ''openai'' then
        generateOpenAIChatCompletion api
          [\<lparr>role = System, content = TITLE_PROMPT\<rparr>, \<lparr>role = User, content = firstUserMessage\<rparr>]
          modelName tr
      else if provider = ''google'' then
        generateGoogleChatCompletion api
          [\<lparr>role = User, content = TITLE_PROMPT @ ''\<newline>\<newline>'' @ firstUserMessage\<rparr>]
          modelName tr
      else
        generateOpenAIChatCompletion api
          [\<lparr>role = System, content = TITLE_PROMPT\<rparr>, \<lparr>role = User, content = firstUserMessage\<rparr>]
          ''gpt-3.5-turbo'' tr)"

definition titleFallback ::
  "sdk \<Rightarrow> env \<Rightarrow> string \<Rightarrow> request list \<Rightarrow> (error + string) call" where
  \<comment> \<open>the \<open>catch\<close> block of generateConversationTitle\<close>
  "titleFallback api e firstUserMessage tr =
     (if configured (GOOGLE_API_KEY e) then
        (case generateGoogleChatCompletion api
                [\<lparr>role = User, content = TITLE_PROMPT @ ''\<newline>\<newline>'' @ firstUserMessage\<rparr>]
                ''gemini-2.0-flash'' tr of
           (Inr text, tr') \<Rightarrow> (Inr text, tr')
         | (Inl fallbackError, tr') \<Rightarrow> (Inr ''New Conversation'', tr'))
      else (Inr ''New Conversation'', tr))"

definition generateConversationTitle ::
  "sdk \<Rightarrow> env \<Rightarrow> string \<Rightarrow> string option \<Rightarrow> request list \<Rightarrow> (error + string) call" where
  \<comment> \<open>the model is \<open>None\<close> when the caller leaves it out: the default is \<open>"gpt-3.5-turbo"\<close>\<close>
  "generateConversationTitle api e firstUserMessage modelArg tr =
     (let model = (case modelArg of None \<Rightarrow> ''gpt-3.5-turbo'' | Some m \<Rightarrow> m);
          (provider, modelName) = parseModel model
      in case titleAttempt api firstUserMessage provider modelName tr of
           (Inr title, tr') \<Rightarrow> (Inr title, tr')
         | (Inl err, tr') \<Rightarrow> titleFallback api e firstUserMessage tr')"

section \<open>The history sent to the dispatcher (server/routes.ts)\<close>

definition normalizeRole :: "string \<Rightarrow> role" where
  \<comment> \<open>"Convert role to one of the supported roles"\<close>
  "normalizeRole r =
     (if r = ''user'' then User
      else if r = ''assistant'' then Assistant
      else if r = ''system'' then System
      else User)"

definition formattedMessages :: "Message list \<Rightarrow> AIMessage list" where
  "formattedMessages allMessages =
     map (\<lambda>msg. \<lparr>role = normalizeRole (msg_role msg), content = msg_content msg\<rparr>) allMessages"

definition roleName :: "role \<Rightarrow> string" where
  \<comment> \<open>the string of a role in the type \<open>'user' | 'assistant' | 'system'\<close>\<close>
  "roleName r = (case r of User \<Rightarrow> ''user'' | Assistant \<Rightarrow> ''assistant'' | System \<Rightarrow> ''system'')"


section \<open>The fallback cascade, as the specification words it\<close>

definition requestTarget :: "request \<Rightarrow> string \<times> string" where
  \<comment> \<open>the provider and the model of a request\<close>
  "requestTarget req =
     (case req of
        OpenAIRequest model _ \<Rightarrow> (''openai'', model)
      | MistralRequest model _ \<Rightarrow> (''mistral'', model)
      | GoogleRequest model _ \<Rightarrow> (''google'', model))"

definition spec_fallbackOrder :: "(string \<times> string) list" where
  \<comment> \<open>the fixed order, each provider with its fixed fallback model\<close>
  "spec_fallbackOrder =
     [(''mistral'', ''mistral-large-2''), (''openai'', ''gpt-3.5-turbo''),
      (''google'', ''gemini-2.0-flash'')]"

definition spec_credential :: "env \<Rightarrow> string \<Rightarrow> string option" where
  "spec_credential e provider =
     (if provider = ''mistral'' then MISTRAL_API_KEY e
      else if provider = ''openai'' then OPENAI_API_KEY e
      else GOOGLE_API_KEY e)"

definition spec_eligible :: "env \<Rightarrow> string \<Rightarrow> (string \<times> string) list" where
  \<comment> \<open>a fallback is tried only if its credential is configured and it was not the original
      provider\<close>
  "spec_eligible e original =
     filter (\<lambda>(provider, model). configured (spec_credential e provider) \<and> original \<noteq> provider)
       spec_fallbackOrder"

definition spec_complete ::
  "sdk \<Rightarrow> string \<Rightarrow> AIMessage list \<Rightarrow> string \<Rightarrow> request list \<Rightarrow> (error + string) call" where
  "spec_complete api provider =
     (if provider = ''mistral'' then generateMistralChatCompletion api
      else if provider = ''openai'' then generateOpenAIChatCompletion api
      else generateGoogleChatCompletion api)"

fun spec_cascade ::
  "sdk \<Rightarrow> AIMessage list \<Rightarrow> (string \<times> string) list \<Rightarrow> error \<Rightarrow> request list \<Rightarrow> (error + string) call" where
  \<comment> \<open>the candidates one after the other: the first success is the result, a failure is
      dropped and the next candidate is tried; when none is left the call fails with the
      message of the original error\<close>
  "spec_cascade api messages [] original tr =
     (Inl (Error (''Failed to generate AI response: '' @ orUnknown (message original))), tr)"
| "spec_cascade api messages ((provider, model) # candidates) original tr =
     (case spec_complete api provider messages model tr of
        (Inr text, tr') \<Rightarrow> (Inr text, tr')
      | (Inl _, tr') \<Rightarrow> spec_cascade api messages candidates original tr')"

definition spec_lines :: "string \<Rightarrow> string list" where
  \<comment> \<open>the lines of a text, trimmed, blank lines dropped\<close>
  "spec_lines s = filter (\<lambda>q. q \<noteq> []) (map trim (split CHR 0x0A s))"

section \<open>Example inputs\<close>

definition scenarioA :: string where
  "scenarioA = ''Hi there!\<newline><QUICK_QUESTIONS>\<newline>How are you?\<newline>What's new?\<newline>Tell me more\<newline>Anything else?\<newline></QUICK_QUESTIONS>''"

definition exampleMessage :: "int \<Rightarrow> string \<Rightarrow> string \<Rightarrow> Message" where
  "exampleMessage i r c =
     \<lparr>msg_id = i, msg_content = c, msg_role = r, msg_conversationId = 1,
      msg_createdAt = ''2025-01-01T00:00:00.000Z''\<rparr>"

definition failingSdk :: sdk where
  \<comment> \<open>every provider is down\<close>
  "failingSdk =
     \<lparr>openai_create = (\<lambda>tr model messages. Inl (Error ''openai down'')),
      mistral_complete = (\<lambda>tr model messages. Inl (Error ''mistral down'')),
      gemini_generateContent = (\<lambda>tr model messages. Inl (Error ''google down''))\<rparr>"

definition echoSdk :: sdk where
  \<comment> \<open>every provider answers with the text of the first message it receives\<close>
  "echoSdk =
     \<lparr>openai_create = (\<lambda>tr model messages.
        case messages of [] \<Rightarrow> Inl (Error ''no messages'') | m # _ \<Rightarrow> Inr (Some (content m))),
      mistral_complete = (\<lambda>tr model messages.
        case messages of [] \<Rightarrow> Inl (Error ''no messages'')
        | m # _ \<Rightarrow> Inr (Some [ContentString (content m)])),
      gemini_generateContent = (\<lambda>tr model messages.
        case messages of [] \<Rightarrow> Inl (Error ''no messages'') | m # _ \<Rightarrow> Inr (concat (parts m)))\<rparr>"

definition allKeys :: env where
  "allKeys =
     \<lparr>OPENAI_API_KEY = Some ''sk-1'', GOOGLE_API_KEY = Some ''g-1'', MISTRAL_API_KEY = Some ''m-1''\<rparr>"

definition noKeys :: env where
  "noKeys = \<lparr>OPENAI_API_KEY = None, GOOGLE_API_KEY = None, MISTRAL_API_KEY = None\<rparr>"


section \<open>Searching and splitting strings\<close>

lemma startsWith_iff: "startsWith s p \<longleftrightarrow> (\<exists>a. s = p @ a)"
proof
  assume "startsWith s p"
  then have "s = p @ drop (length p) s"
    unfolding startsWith_def by (metis append_take_drop_id)
  then show "\<exists>a. s = p @ a" ..
next
  assume "\<exists>a. s = p @ a"
  then show "startsWith s p" by (auto simp: startsWith_def)
qed

lemma indexOf_Some: "indexOf s p = Some i \<Longrightarrow> s = take i s @ p @ drop (i + length p) s"
proof (induction s arbitrary: i)
  case Nil
  then show ?case by (simp split: if_splits)
next
  case (Cons x xs)
  show ?case
  proof (cases "startsWith (x # xs) p")
    case True
    with Cons.prems have "i = 0" by simp
    moreover from True obtain a where "x # xs = p @ a" by (auto simp: startsWith_iff)
    ultimately show ?thesis by simp
  next
    case False
    with Cons.prems obtain j where j: "indexOf xs p = Some j" "i = Suc j" by auto
    from Cons.IH[OF j(1)] j(2) show ?thesis by simp
  qed
qed

lemma indexOf_le: "indexOf s p = Some i \<Longrightarrow> i + length p \<le> length s"
proof (induction s arbitrary: i)
  case Nil
  then show ?case by (simp split: if_splits)
next
  case (Cons x xs)
  show ?case
  proof (cases "startsWith (x # xs) p")
    case True
    then obtain a where "x # xs = p @ a" by (auto simp: startsWith_iff)
    then have "length (x # xs) = length p + length a" by (metis length_append)
    then have "length p \<le> length (x # xs)" by linarith
    with True Cons.prems show ?thesis by simp
  next
    case False
    with Cons.prems obtain j where j: "indexOf xs p = Some j" "i = Suc j" by auto
    from Cons.IH[OF j(1)] j(2) show ?thesis by simp
  qed
qed

lemma indexOf_append: "\<exists>k. indexOf (u @ p @ v) p = Some k \<and> k \<le> length u"
proof (induction u)
  case Nil
  have "startsWith (p @ v) p" by (simp add: startsWith_def)
  then show ?case by (cases "p @ v") (auto simp: startsWith_def)
next
  case (Cons x u)
  then show ?case by auto
qed

lemma indexOf_None: "indexOf s p = None \<Longrightarrow> s \<noteq> u @ p @ v"
  using indexOf_append[of u p v] by auto

lemma indexOf_first: "indexOf s p = Some i \<Longrightarrow> j < i \<Longrightarrow> \<not> startsWith (drop j s) p"
proof (induction s arbitrary: i j)
  case Nil
  then show ?case by (simp split: if_splits)
next
  case (Cons x xs)
  from Cons.prems have ns: "\<not> startsWith (x # xs) p" by (auto split: if_splits)
  with Cons.prems obtain k where k: "indexOf xs p = Some k" "i = Suc k" by auto
  show ?case
  proof (cases j)
    case 0
    with ns show ?thesis by simp
  next
    case (Suc j')
    with Cons.prems k have "j' < k" by simp
    from Cons.IH[OF k(1) this] Suc show ?thesis by simp
  qed
qed

section \<open>The parser of the quick-questions block\<close>

lemma match_Some:
  assumes "matchQuickQuestions s = Some (b, i, a)"
  shows "s = b @ QQ_OPEN @ i @ QQ_CLOSE @ a"
    and "indexOf s QQ_OPEN = Some (length b)"
    and "indexOf (i @ QQ_CLOSE @ a) QQ_CLOSE = Some (length i)"
proof -
  from assms obtain k where k: "indexOf s QQ_OPEN = Some k"
    by (auto simp: matchQuickQuestions_def split: option.splits)
  define rest where "rest = drop (k + length QQ_OPEN) s"
  from assms k obtain j where j: "indexOf rest QQ_CLOSE = Some j"
    and b: "b = take k s" and i: "i = take j rest" and a: "a = drop (j + length QQ_CLOSE) rest"
    by (auto simp: matchQuickQuestions_def rest_def Let_def split: option.splits)
  from indexOf_Some[OF k] have s: "s = take k s @ QQ_OPEN @ rest" by (simp add: rest_def)
  from indexOf_Some[OF j] have r: "rest = i @ QQ_CLOSE @ a" by (simp add: i a)
  from s r b show "s = b @ QQ_OPEN @ i @ QQ_CLOSE @ a" by simp
  from indexOf_le[OF k] have "k \<le> length s" by simp
  then have "length b = k" by (simp add: b)
  with k show "indexOf s QQ_OPEN = Some (length b)" by simp
  from indexOf_le[OF j] have "j \<le> length rest" by simp
  then have "length i = j" by (simp add: i)
  moreover have "indexOf (i @ QQ_CLOSE @ a) QQ_CLOSE = Some j" by (simp only: r[symmetric] j)
  ultimately show "indexOf (i @ QQ_CLOSE @ a) QQ_CLOSE = Some (length i)" by simp
qed

lemma match_None_iff:
  "matchQuickQuestions s = None \<longleftrightarrow> (\<forall>b i a. s \<noteq> b @ QQ_OPEN @ i @ QQ_CLOSE @ a)"
proof
  assume n: "matchQuickQuestions s = None"
  show "\<forall>b i a. s \<noteq> b @ QQ_OPEN @ i @ QQ_CLOSE @ a"
  proof (intro allI notI)
    fix b i a assume s: "s = b @ QQ_OPEN @ i @ QQ_CLOSE @ a"
    from indexOf_append[of b QQ_OPEN "i @ QQ_CLOSE @ a"] s
    obtain k where k: "indexOf s QQ_OPEN = Some k" "k \<le> length b" by auto
    define rest where "rest = drop (k + length QQ_OPEN) s"
    have "rest = drop (k + length QQ_OPEN) (b @ QQ_OPEN) @ i @ QQ_CLOSE @ a"
      using k(2) by (simp add: rest_def s)
    then have "indexOf rest QQ_CLOSE \<noteq> None"
      using indexOf_append[of "drop (k + length QQ_OPEN) (b @ QQ_OPEN) @ i" QQ_CLOSE a] by auto
    with n k(1) show False
      by (auto simp: matchQuickQuestions_def rest_def Let_def split: option.splits)
  qed
next
  assume h: "\<forall>b i a. s \<noteq> b @ QQ_OPEN @ i @ QQ_CLOSE @ a"
  show "matchQuickQuestions s = None"
  proof (cases "matchQuickQuestions s")
    case None
    then show ?thesis .
  next
    case (Some t)
    obtain b i a where "t = (b, i, a)" by (cases t) auto
    with Some match_Some(1)[of s b i a] h show ?thesis by blast
  qed
qed



text \<open>Trimming a text first does not change its trimmed, non-blank lines.\<close>

lemma trim_Nil: "trim [] = []" by (simp add: trim_def)

lemma trim_Cons_ws: "isWhiteSpace x \<Longrightarrow> trim (x # y) = trim y"
  by (simp add: trim_def)

lemma trim_snoc_ws: "isWhiteSpace x \<Longrightarrow> trim (y @ [x]) = trim y"
proof (cases "\<forall>c\<in>set y. isWhiteSpace c")
  case True
  assume x: "isWhiteSpace x"
  have e1: "dropWhile isWhiteSpace (y @ [x]) = []" using True x by simp
  have e2: "dropWhile isWhiteSpace y = []" using True by simp
  show ?thesis unfolding trim_def e1 e2 by simp
next
  case False
  assume x: "isWhiteSpace x"
  from False obtain c where "c \<in> set y" "\<not> isWhiteSpace c" by blast
  then have "dropWhile isWhiteSpace (y @ [x]) = dropWhile isWhiteSpace y @ [x]"
    by (rule dropWhile_append1)
  with x show ?thesis by (simp add: trim_def)
qed

lemma split_not_Nil: "split c s \<noteq> []"
  by (induction s) (auto split: list.splits)

lemma split_snoc:
  "split c (s @ [x]) =
     (if x = c then split c s @ [[]] else butlast (split c s) @ [last (split c s) @ [x]])"
proof (induction s)
  case Nil
  then show ?case by simp
next
  case (Cons a s)
  then show ?case using split_not_Nil[of c s] 
    by (auto split: list.splits simp: butlast_append)
qed

lemma spec_lines_Cons_ws: "isWhiteSpace x \<Longrightarrow> spec_lines (x # s) = spec_lines s"
  using split_not_Nil[of "CHR 0x0A" s]
  by (auto simp: spec_lines_def trim_Nil trim_Cons_ws split: list.splits)

lemma spec_lines_snoc_ws:
  assumes "isWhiteSpace x" shows "spec_lines (s @ [x]) = spec_lines s"
proof (cases "x = CHR 0x0A")
  case True
  then show ?thesis by (simp add: spec_lines_def split_snoc trim_Nil)
next
  case False
  define L where "L = split CHR 0x0A s"
  have L: "L \<noteq> []" by (simp add: L_def split_not_Nil)
  have "map trim (butlast L @ [last L @ [x]]) = map trim (butlast L @ [last L])"
    using assms by (simp add: trim_snoc_ws)
  also have "\<dots> = map trim L" using L by simp
  finally show ?thesis using False by (simp add: spec_lines_def split_snoc L_def)
qed

lemma spec_lines_dropWhile: "spec_lines (dropWhile isWhiteSpace s) = spec_lines s"
  by (induction s) (simp_all add: spec_lines_Cons_ws)

lemma spec_lines_dropWhile_rev:
  "spec_lines (rev (dropWhile isWhiteSpace (rev s))) = spec_lines s"
  by (induction s rule: rev_induct) (simp_all add: spec_lines_snoc_ws)

lemma spec_lines_trim: "spec_lines (trim s) = spec_lines s"
  unfolding trim_def by (simp add: spec_lines_dropWhile_rev spec_lines_dropWhile)


lemma processContent_scenarioA:
  "processContent ''assistant'' scenarioA initialParsed =
     \<lparr>quickQuestions = [''How are you?'', ''What's new?'', ''Tell me more'', ''Anything else?''],
      cleanContent = ''Hi there!''\<rparr>"
  by (simp add: scenarioA_def processContent_def isUser_def matchQuickQuestions_def QQ_OPEN_def
      QQ_CLOSE_def startsWith_def trim_def isWhiteSpace_def initialParsed_def)

lemma matchQuickQuestions_scenarioA:
  "matchQuickQuestions scenarioA =
     Some (''Hi there!\<newline>'', ''\<newline>How are you?\<newline>What's new?\<newline>Tell me more\<newline>Anything else?\<newline>'', [])"
  by (simp add: scenarioA_def matchQuickQuestions_def QQ_OPEN_def QQ_CLOSE_def startsWith_def)

text \<open>
  Claim C2, amended. For the content of every message that is not a user message: the
  parser finds a block exactly when the content has the form
  \<open>before <QUICK_QUESTIONS> inner </QUICK_QUESTIONS> after\<close>, and it takes the first opening
  tag and the first closing tag after it. Without a block the question list is empty and
  the display text is the content unchanged. With a block whose inner text is not empty,
  the question list is the inner lines, trimmed, blank lines dropped, and the display text
  is the content without the block (delimiters included), trimmed of the white space at
  its two ends.
\<close>

theorem processContent_quick_questions:
  assumes "\<not> isUser msgRole"
  shows "(matchQuickQuestions txt = None \<longleftrightarrow>
            (\<forall>b i a. txt \<noteq> b @ QQ_OPEN @ i @ QQ_CLOSE @ a)) \<and>
         (matchQuickQuestions txt = None \<longrightarrow>
            quickQuestions (processContent msgRole txt st) = [] \<and>
            cleanContent (processContent msgRole txt st) = txt) \<and>
         (\<forall>before inner after.
            matchQuickQuestions txt = Some (before, inner, after) \<longrightarrow>
              txt = before @ QQ_OPEN @ inner @ QQ_CLOSE @ after \<and>
              indexOf txt QQ_OPEN = Some (length before) \<and>
              indexOf (inner @ QQ_CLOSE @ after) QQ_CLOSE = Some (length inner) \<and>
              (inner \<noteq> [] \<longrightarrow>
                 quickQuestions (processContent msgRole txt st) = spec_lines inner \<and>
                 cleanContent (processContent msgRole txt st) = trim (before @ after)))"
proof (intro conjI allI impI)
  show "matchQuickQuestions txt = None \<longleftrightarrow>
          (\<forall>b i a. txt \<noteq> b @ QQ_OPEN @ i @ QQ_CLOSE @ a)"
    by (rule match_None_iff)
next
  assume "matchQuickQuestions txt = None"
  with assms show "quickQuestions (processContent msgRole txt st) = []"
    and "cleanContent (processContent msgRole txt st) = txt"
    by (simp_all add: processContent_def)
next
  fix before inner after
  assume m: "matchQuickQuestions txt = Some (before, inner, after)"
  from match_Some[OF m]
  show "txt = before @ QQ_OPEN @ inner @ QQ_CLOSE @ after"
    and "indexOf txt QQ_OPEN = Some (length before)"
    and "indexOf (inner @ QQ_CLOSE @ after) QQ_CLOSE = Some (length inner)"
    by simp_all
  assume ne: "inner \<noteq> []"
  have "filter (\<lambda>q. length q > 0) (map trim (split CHR 0x0A (trim inner))) = spec_lines (trim inner)"
    by (simp add: spec_lines_def)
  with assms m ne show "quickQuestions (processContent msgRole txt st) = spec_lines inner"
    by (simp add: processContent_def spec_lines_trim)
  from assms m ne show "cleanContent (processContent msgRole txt st) = trim (before @ after)"
    by (simp add: processContent_def)
qed

text \<open>Scenario A of the specification, and a content without a block.\<close>

theorem processContent_quick_questions_witness:
  "\<not> isUser ''assistant'' \<and>
   matchQuickQuestions scenarioA =
     Some (''Hi there!\<newline>'', ''\<newline>How are you?\<newline>What's new?\<newline>Tell me more\<newline>Anything else?\<newline>'', []) \<and>
   quickQuestions (processContent ''assistant'' scenarioA initialParsed) =
     [''How are you?'', ''What's new?'', ''Tell me more'', ''Anything else?''] \<and>
   cleanContent (processContent ''assistant'' scenarioA initialParsed) = ''Hi there!'' \<and>
   matchQuickQuestions ''No questions here'' = None \<and>
   cleanContent (processContent ''assistant'' ''No questions here'' initialParsed) = ''No questions here''"
proof -
  have u: "\<not> isUser ''assistant''" by (simp add: isUser_def)
  have l: "spec_lines ''\<newline>How are you?\<newline>What's new?\<newline>Tell me more\<newline>Anything else?\<newline>'' =
      [''How are you?'', ''What's new?'', ''Tell me more'', ''Anything else?'']"
    by (simp add: spec_lines_def trim_def isWhiteSpace_def)
  have t: "trim (''Hi there!\<newline>'' @ []) = ''Hi there!''"
    by (simp add: trim_def isWhiteSpace_def)
  have n: "matchQuickQuestions ''No questions here'' = None"
    by (simp add: matchQuickQuestions_def QQ_OPEN_def startsWith_def)
  from processContent_quick_questions[OF u, of scenarioA initialParsed] matchQuickQuestions_scenarioA l t
  have "quickQuestions (processContent ''assistant'' scenarioA initialParsed) =
     [''How are you?'', ''What's new?'', ''Tell me more'', ''Anything else?''] \<and>
   cleanContent (processContent ''assistant'' scenarioA initialParsed) = ''Hi there!''"
    by simp
  moreover from processContent_quick_questions[OF u, of "''No questions here''" initialParsed] n
  have "cleanContent (processContent ''assistant'' ''No questions here'' initialParsed) = ''No questions here''"
    by simp
  ultimately show ?thesis using u n matchQuickQuestions_scenarioA by simp
qed

text \<open>
  Claim C2 as stated fails: in scenario A the block is present, and the display text is not
  the content with the block removed (that text ends with a line feed).
\<close>

theorem processContent_not_trimmed_counterexample:
  "matchQuickQuestions scenarioA =
     Some (''Hi there!\<newline>'', ''\<newline>How are you?\<newline>What's new?\<newline>Tell me more\<newline>Anything else?\<newline>'', []) \<and>
   cleanContent (processContent ''assistant'' scenarioA initialParsed) \<noteq> ''Hi there!\<newline>'' @ []"
  using matchQuickQuestions_scenarioA processContent_scenarioA by simp

text \<open>A block with nothing between its tags is left in the display text.\<close>

lemma processContent_empty_block:
  "processContent ''assistant'' ''Done.<QUICK_QUESTIONS></QUICK_QUESTIONS>'' initialParsed =
     \<lparr>quickQuestions = [], cleanContent = ''Done.<QUICK_QUESTIONS></QUICK_QUESTIONS>''\<rparr>"
  by (simp add: processContent_def isUser_def matchQuickQuestions_def QQ_OPEN_def
      QQ_CLOSE_def startsWith_def initialParsed_def)


section \<open>The plain text of the typing animation\<close>

text \<open>
  Claim C7 says that every fenced code block is collapsed to the placeholder. The chain
  removes every backtick before it looks for fences, so no fence is left to find: the
  fenced block \<open>ls\<close> keeps its text, although the fence expression alone would give the
  placeholder.
\<close>

theorem plainTextContent_fence:
  "plainTextContent (FENCE @ ''ls'' @ FENCE) = ''ls'' \<and>
   replaceAll matchFence (FENCE @ ''ls'' @ FENCE) = ''(code block)''"
  by (simp add: plainTextContent_def FENCE_def BACKTICK_def matchLiteral_def matchFence_def
      matchLink_def matchHeading_def startsWith_def)

text \<open>In general the fence step is the identity on the text that reaches it.\<close>

lemma replaceAll_no_match: "(\<And>t. m t = None) \<Longrightarrow> replaceAll m s = s"
  by (induction s) simp_all

lemma replaceAll_literal_char: "replaceAll (matchLiteral [c] []) s = filter (\<lambda>d. d \<noteq> c) s"
  by (induction s) (auto simp: matchLiteral_def startsWith_def)

lemma replaceAll_fence_id: "BACKTICK \<notin> set s \<Longrightarrow> replaceAll matchFence s = s"
proof (induction s)
  case Nil
  then show ?case by simp
next
  case (Cons x xs)
  then have "\<not> startsWith (x # xs) FENCE"
    by (auto simp: startsWith_def FENCE_def)
  with Cons show ?case by (simp add: matchFence_def)
qed

lemma plainTextContent_never_collapses:
  "plainTextContent s =
     replaceAll matchHeading (replaceAll matchLink
       (filter (\<lambda>d. d \<noteq> BACKTICK) (filter (\<lambda>d. d \<noteq> CHR ''*'') (replaceAll (matchLiteral ''**'' []) s))))"
  by (simp add: plainTextContent_def replaceAll_literal_char replaceAll_fence_id)

section \<open>The animation state\<close>





text \<open>
  Claim C5. When the conversation differs from the observed one, the reset effect clears
  the animated message and empties the observed list, and it runs before the effect that
  tracks new messages; after the commit no message is animated, whatever the state before
  and whatever the messages.
\<close>

theorem resetOnSwitch_clears:
  assumes "conversationIdRef st \<noteq> Some conversationId"
  shows "animatedMessageId (resetOnSwitch conversationId st) = None \<and>
         length (prevMessagesRef (resetOnSwitch conversationId st)) = 0 \<and>
         conversationIdRef (resetOnSwitch conversationId st) = Some conversationId \<and>
         commitRender True messagesChanged conversationId messages st =
           (if messagesChanged then trackNewMessages messages (resetOnSwitch conversationId st)
            else resetOnSwitch conversationId st) \<and>
         animatedMessageId (commitRender True messagesChanged conversationId messages st) = None \<and>
         (\<forall>m. \<not> isNew (commitRender True messagesChanged conversationId messages st) m)"
  using assms
  by (auto simp: resetOnSwitch_def commitRender_def trackNewMessages_def isNew_def Let_def)

text \<open>A switch from conversation 1, where message 7 is animating, to conversation 2.\<close>

theorem resetOnSwitch_clears_witness:
  "conversationIdRef \<lparr>animatedMessageId = Some 7, prevMessagesRef = [exampleMessage 7 ''assistant'' ''Hi''],
                      conversationIdRef = Some 1\<rparr> \<noteq> Some 2 \<and>
   animatedMessageId
     (commitRender True True 2 [exampleMessage 8 ''assistant'' ''Other'']
        \<lparr>animatedMessageId = Some 7, prevMessagesRef = [exampleMessage 7 ''assistant'' ''Hi''],
         conversationIdRef = Some 1\<rparr>) = None"
proof -
  let ?st = "\<lparr>animatedMessageId = Some 7, prevMessagesRef = [exampleMessage 7 ''assistant'' ''Hi''],
                      conversationIdRef = Some (1::int)\<rparr>"
  have h: "conversationIdRef ?st \<noteq> Some 2" by simp
  from resetOnSwitch_clears[OF h, of True "[exampleMessage 8 ''assistant'' ''Other'']"]
  have "animatedMessageId (commitRender True True 2 [exampleMessage 8 ''assistant'' ''Other''] ?st) = None"
    by blast
  with h show ?thesis by blast
qed

section \<open>The normalization of roles\<close>

text \<open>
  Claim C9, amended. Before the history goes to the dispatcher the server maps every
  stored role into user, assistant or system: a recognized role is kept, any other becomes
  user; contents and order are kept. The client does not normalize: it tests whether the
  stored role is \<open>user\<close>, which agrees with the server's mapping on the three
  recognized roles only.
\<close>

theorem normalizeRole_closed:
  "roleName (normalizeRole r) \<in> {''user'', ''assistant'', ''system''} \<and>
   (r \<in> {''user'', ''assistant'', ''system''} \<longrightarrow> roleName (normalizeRole r) = r) \<and>
   (r \<notin> {''user'', ''assistant'', ''system''} \<longrightarrow> normalizeRole r = User) \<and>
   map role (formattedMessages allMessages) = map (\<lambda>msg. normalizeRole (msg_role msg)) allMessages \<and>
   map content (formattedMessages allMessages) = map msg_content allMessages \<and>
   (isUser r \<longleftrightarrow> r = ''user'') \<and>
   (r \<in> {''user'', ''assistant'', ''system''} \<longrightarrow> (isUser r \<longleftrightarrow> normalizeRole r = User))"
  by (auto simp: normalizeRole_def roleName_def formattedMessages_def isUser_def)

text \<open>The roles \<open>tool\<close> and \<open>assistant\<close>.\<close>

theorem normalizeRole_closed_witness:
  "normalizeRole ''tool'' = User \<and> \<not> isUser ''tool'' \<and>
   roleName (normalizeRole ''assistant'') = ''assistant''"
  using normalizeRole_closed[of "''tool''"] normalizeRole_closed[of "''assistant''"]
  by simp

text \<open>
  Claim C9 as stated fails: a message with the unrecognized role \<open>tool\<close> would be a user
  message after the server's normalization, and the client does not render it as one.
\<close>

theorem isUser_not_normalized_counterexample:
  "isUser (roleName (normalizeRole ''tool'')) \<and> \<not> isUser ''tool''"
  by (simp add: normalizeRole_def roleName_def isUser_def)


section \<open>The completion dispatcher\<close>

text \<open>Each provider function makes exactly one request.\<close>

lemma snd_generateOpenAI:
  "snd (generateOpenAIChatCompletion api messages model tr) =
     tr @ [OpenAIRequest model (openaiMessages messages)]"
  by (simp add: generateOpenAIChatCompletion_def Let_def split: sum.splits)

lemma snd_generateMistral:
  "snd (generateMistralChatCompletion api messages model tr) =
     tr @ [MistralRequest model (mistralMessages messages)]"
  by (simp add: generateMistralChatCompletion_def Let_def
      split: sum.splits option.splits list.splits mistralContent.splits)

lemma snd_generateGoogle:
  "snd (generateGoogleChatCompletion api messages model tr) =
     tr @ [GoogleRequest model (geminiMessages messages)]"
  by (simp add: generateGoogleChatCompletion_def Let_def split: sum.splits)

lemma spec_complete_trace:
  assumes "provider \<in> {''mistral'', ''openai'', ''google''}"
  shows "\<exists>req. snd (spec_complete api provider messages model tr) = tr @ [req] \<and>
               requestTarget req = (provider, model)"
  using assms
  by (auto simp: spec_complete_def snd_generateOpenAI snd_generateMistral snd_generateGoogle
      requestTarget_def)

lemma spec_cascade_trace:
  assumes "\<forall>c \<in> set cs. fst c \<in> {''mistral'', ''openai'', ''google''}"
  shows "\<exists>rs k. snd (spec_cascade api messages cs err tr) = tr @ rs \<and>
           map requestTarget rs = take k cs \<and>
           (\<forall>x. fst (spec_cascade api messages cs err tr) = Inl x \<longrightarrow>
              x = Error (''Failed to generate AI response: '' @ orUnknown (message err)) \<and>
              map requestTarget rs = cs)"
  using assms
proof (induction cs arbitrary: tr)
  case Nil
  then show ?case by simp
next
  case (Cons c cs)
  obtain provider model where c: "c = (provider, model)" by (cases c)
  with Cons.prems have p: "provider \<in> {''mistral'', ''openai'', ''google''}" by simp
  from spec_complete_trace[OF p, of api messages model tr]
  obtain req where req: "snd (spec_complete api provider messages model tr) = tr @ [req]"
    "requestTarget req = (provider, model)" by blast
  obtain r where r: "spec_complete api provider messages model tr = (r, tr @ [req])"
    using req(1) by (cases "spec_complete api provider messages model tr") simp
  show ?case
  proof (cases r)
    case (Inr answer)
    with r c req(2) have "snd (spec_cascade api messages (c # cs) err tr) = tr @ [req]"
      "map requestTarget [req] = take 1 (c # cs)"
      "\<forall>x. fst (spec_cascade api messages (c # cs) err tr) \<noteq> Inl x"
      by simp_all
    then show ?thesis by blast
  next
    case (Inl fallbackError)
    with r c have eq: "spec_cascade api messages (c # cs) err tr =
        spec_cascade api messages cs err (tr @ [req])" by simp
    from Cons.prems have "\<forall>c \<in> set cs. fst c \<in> {''mistral'', ''openai'', ''google''}" by simp
    from Cons.IH[OF this, of "tr @ [req]"]
    obtain rs k where rs: "snd (spec_cascade api messages cs err (tr @ [req])) = (tr @ [req]) @ rs"
      "map requestTarget rs = take k cs"
      "\<forall>x. fst (spec_cascade api messages cs err (tr @ [req])) = Inl x \<longrightarrow>
              x = Error (''Failed to generate AI response: '' @ orUnknown (message err)) \<and>
              map requestTarget rs = cs" by blast
    have "snd (spec_cascade api messages (c # cs) err tr) = tr @ (req # rs)"
      using rs(1) eq by simp
    moreover have "map requestTarget (req # rs) = take (Suc k) (c # cs)"
      using rs(2) req(2) c by simp
    moreover have "\<forall>x. fst (spec_cascade api messages (c # cs) err tr) = Inl x \<longrightarrow>
              x = Error (''Failed to generate AI response: '' @ orUnknown (message err)) \<and>
              map requestTarget (req # rs) = c # cs"
      using rs(3) eq req(2) c by simp
    ultimately show ?thesis by blast
  qed
qed

text \<open>The three nested fallbacks of the \<open>catch\<close> block are the cascade over the eligible candidates.\<close>

lemma fallbackGoogle_spec:
  "fallbackGoogle api e messages provider err tr =
     spec_cascade api messages
       (filter (\<lambda>(p, m). configured (spec_credential e p) \<and> provider \<noteq> p)
          [(''google'', ''gemini-2.0-flash'')]) err tr"
  by (simp add: fallbackGoogle_def spec_credential_def spec_complete_def failCompletion_def
       split: prod.splits sum.splits)

lemma fallbackOpenAI_spec:
  "fallbackOpenAI api e messages provider err tr =
     spec_cascade api messages
       (filter (\<lambda>(p, m). configured (spec_credential e p) \<and> provider \<noteq> p)
          [(''openai'', ''gpt-3.5-turbo''), (''google'', ''gemini-2.0-flash'')]) err tr"
proof -
  have g: "fallbackGoogle api e messages provider err t =
      spec_cascade api messages
       (filter (\<lambda>(p, m). configured (spec_credential e p) \<and> provider \<noteq> p)
          [(''google'', ''gemini-2.0-flash'')]) err t" for t
    by (rule fallbackGoogle_spec)
  show ?thesis
  proof (cases "configured (OPENAI_API_KEY e) \<and> provider \<noteq> ''openai''")
    case True
    then show ?thesis
      by (simp add: fallbackOpenAI_def g spec_complete_def spec_credential_def
          split: prod.splits sum.splits)
  next
    case False
    then show ?thesis
      by (auto simp add: fallbackOpenAI_def g spec_credential_def)
  qed
qed

lemma fallbackMistral_spec:
  "fallbackMistral api e messages provider err tr =
     spec_cascade api messages (spec_eligible e provider) err tr"
proof -
  have g: "fallbackOpenAI api e messages provider err t =
      spec_cascade api messages (filter (\<lambda>(p, m). configured (spec_credential e p) \<and> provider \<noteq> p)
          [(''openai'', ''gpt-3.5-turbo''), (''google'', ''gemini-2.0-flash'')]) err t" for t
    by (rule fallbackOpenAI_spec)
  show ?thesis
  proof (cases "configured (MISTRAL_API_KEY e) \<and> provider \<noteq> ''mistral''")
    case True
    then show ?thesis
      by (simp add: fallbackMistral_def g spec_complete_def spec_eligible_def
          spec_fallbackOrder_def spec_credential_def split: prod.splits sum.splits)
  next
    case False
    then show ?thesis
      by (auto simp add: fallbackMistral_def g spec_eligible_def spec_fallbackOrder_def
          spec_credential_def)
  qed
qed

lemma spec_eligible_known:
  "\<forall>c \<in> set (spec_eligible e provider). fst c \<in> {''mistral'', ''openai'', ''google''}"
  by (auto simp: spec_eligible_def spec_fallbackOrder_def)

text \<open>
  Claim C1. For every history and every model selector (left out, or with an unknown
  provider, whose first attempt fails without a request): when the first attempt fails,
  generateChatCompletion is the cascade over mistral, openai and google in this order,
  each with its fixed model, restricted to the providers whose key is configured and that
  are not the original provider. The requests made after the first attempt go to an
  initial part of this list, in its order; a failed fallback is dropped and the next one
  is tried. If the call fails, every eligible fallback was tried and the error is the one
  error \<open>Failed to generate AI response:\<close> followed by the message of the original error
  (by \<open>Unknown error\<close> when that message is empty).
\<close>

theorem generateChatCompletion_cascade:
  assumes "parseModel (case modelArg of None \<Rightarrow> ''gpt-4o'' | Some m \<Rightarrow> m) = (provider, modelName)"
    and "primaryAttempt api messages provider modelName tr = (Inl err, tr1)"
  shows "generateChatCompletion api e messages modelArg tr =
           spec_cascade api messages (spec_eligible e provider) err tr1 \<and>
         (\<exists>rs k. snd (generateChatCompletion api e messages modelArg tr) = tr1 @ rs \<and>
            map requestTarget rs = take k (spec_eligible e provider) \<and>
            (\<forall>x. fst (generateChatCompletion api e messages modelArg tr) = Inl x \<longrightarrow>
               x = Error (''Failed to generate AI response: '' @ orUnknown (message err)) \<and>
               map requestTarget rs = spec_eligible e provider)) \<and>
         (message err \<noteq> [] \<longrightarrow> orUnknown (message err) = message err) \<and>
         (provider \<notin> {''openai'', ''google'', ''mistral''} \<longrightarrow>
            err = Error (''Unsupported AI provider: '' @ provider) \<and> tr1 = tr)"
proof -
  have eq: "generateChatCompletion api e messages modelArg tr =
           spec_cascade api messages (spec_eligible e provider) err tr1"
    using assms by (simp add: generateChatCompletion_def fallbackMistral_spec)
  have u: "provider \<notin> {''openai'', ''google'', ''mistral''} \<longrightarrow>
            err = Error (''Unsupported AI provider: '' @ provider) \<and> tr1 = tr"
    using assms(2) by (auto simp: primaryAttempt_def)
  have t: "\<exists>rs k. snd (spec_cascade api messages (spec_eligible e provider) err tr1) = tr1 @ rs \<and>
           map requestTarget rs = take k (spec_eligible e provider) \<and>
           (\<forall>x. fst (spec_cascade api messages (spec_eligible e provider) err tr1) = Inl x \<longrightarrow>
              x = Error (''Failed to generate AI response: '' @ orUnknown (message err)) \<and>
              map requestTarget rs = spec_eligible e provider)"
    by (rule spec_cascade_trace[OF spec_eligible_known])
  have m: "message err \<noteq> [] \<longrightarrow> orUnknown (message err) = message err"
    by (simp add: orUnknown_def)
  from t show ?thesis unfolding eq using u m by blast
qed


text \<open>
  Every provider down: with all keys and the selector \<open>google:gemini-pro\<close> the requests go
  to google, mistral and openai; with no key and an unknown provider no request is made.
\<close>

theorem generateChatCompletion_cascade_witness:
  "generateChatCompletion failingSdk allKeys [\<lparr>role = User, content = ''Hello''\<rparr>]
     (Some ''google:gemini-pro'') [] =
     (Inl (Error ''Failed to generate AI response: google down''),
      [GoogleRequest ''gemini-pro'' (geminiMessages [\<lparr>role = User, content = ''Hello''\<rparr>]),
       MistralRequest ''mistral-large-2'' (mistralMessages [\<lparr>role = User, content = ''Hello''\<rparr>]),
       OpenAIRequest ''gpt-3.5-turbo'' (openaiMessages [\<lparr>role = User, content = ''Hello''\<rparr>])]) \<and>
   generateChatCompletion failingSdk noKeys [\<lparr>role = User, content = ''Hello''\<rparr>]
     (Some ''llama:7b'') [] =
     (Inl (Error ''Failed to generate AI response: Unsupported AI provider: llama''), [])"
proof -
  let ?ms = "[\<lparr>role = User, content = ''Hello''\<rparr>]"
  have p: "parseModel (case Some ''google:gemini-pro'' of None \<Rightarrow> ''gpt-4o'' | Some m \<Rightarrow> m) =
      (''google'', ''gemini-pro'')"
    by (simp add: parseModel_def)
  have a: "primaryAttempt failingSdk ?ms ''google'' ''gemini-pro'' [] =
      (Inl (Error ''google down''), [GoogleRequest ''gemini-pro'' (geminiMessages ?ms)])"
    by (simp add: primaryAttempt_def generateGoogleChatCompletion_def failingSdk_def Let_def)
  have el: "spec_eligible allKeys ''google'' =
      [(''mistral'', ''mistral-large-2''), (''openai'', ''gpt-3.5-turbo'')]"
    by (simp add: spec_eligible_def spec_fallbackOrder_def spec_credential_def allKeys_def
        configured_def)
  have c: "spec_cascade failingSdk ?ms
        [(''mistral'', ''mistral-large-2''), (''openai'', ''gpt-3.5-turbo'')]
        (Error ''google down'') [GoogleRequest ''gemini-pro'' (geminiMessages ?ms)] =
     (Inl (Error ''Failed to generate AI response: google down''),
      [GoogleRequest ''gemini-pro'' (geminiMessages ?ms),
       MistralRequest ''mistral-large-2'' (mistralMessages ?ms),
       OpenAIRequest ''gpt-3.5-turbo'' (openaiMessages ?ms)])"
    by (simp add: spec_complete_def generateMistralChatCompletion_def
        generateOpenAIChatCompletion_def failingSdk_def Let_def orUnknown_def)
  have p': "parseModel (case Some ''llama:7b'' of None \<Rightarrow> ''gpt-4o'' | Some m \<Rightarrow> m) =
      (''llama'', ''7b'')"
    by (simp add: parseModel_def)
  have a': "primaryAttempt failingSdk ?ms ''llama'' ''7b'' [] =
      (Inl (Error ''Unsupported AI provider: llama''), [])"
    by (simp add: primaryAttempt_def)
  have el': "spec_eligible noKeys ''llama'' = []"
    by (simp add: spec_eligible_def spec_fallbackOrder_def spec_credential_def noKeys_def
        configured_def)
  have c': "spec_cascade failingSdk ?ms [] (Error ''Unsupported AI provider: llama'') [] =
     (Inl (Error ''Failed to generate AI response: Unsupported AI provider: llama''), [])"
    by (simp add: orUnknown_def)
  from generateChatCompletion_cascade[OF p a, of allKeys]
  have "generateChatCompletion failingSdk allKeys ?ms (Some ''google:gemini-pro'') [] =
      spec_cascade failingSdk ?ms (spec_eligible allKeys ''google'') (Error ''google down'')
        [GoogleRequest ''gemini-pro'' (geminiMessages ?ms)]"
    by blast
  moreover from generateChatCompletion_cascade[OF p' a', of noKeys]
  have "generateChatCompletion failingSdk noKeys ?ms (Some ''llama:7b'') [] =
      spec_cascade failingSdk ?ms (spec_eligible noKeys ''llama'')
        (Error ''Unsupported AI provider: llama'') []"
    by blast
  ultimately show ?thesis by (simp only: el c el' c' simp_thms)
qed

subsection \<open>The messages sent to OpenAI and Mistral\<close>

lemma AIMessage_eta: "\<lparr>role = role msg, content = content msg\<rparr> = (msg :: AIMessage)"
  by simp

lemma openaiMessages_system:
  assumes "\<exists>msg \<in> set messages. role msg = System"
  shows "openaiMessages messages =
     map (\<lambda>msg. if role msg = System
                 then msg\<lparr>content := content msg @ ''\<newline>\<newline>'' @ openaiInstruction\<rparr>
                 else msg) messages"
  using assms by (auto simp: openaiMessages_def Let_def)

lemma mistralMessages_system:
  assumes "\<exists>msg \<in> set messages. role msg = System"
  shows "mistralMessages messages =
     map (\<lambda>msg. if role msg = System
                 then msg\<lparr>content := content msg @ ''\<newline>\<newline>'' @ mistralInstruction\<rparr>
                 else msg) messages"
  using assms by (auto simp: mistralMessages_def Let_def)

lemma openaiMessages_no_system:
  assumes "\<forall>msg \<in> set messages. role msg \<noteq> System"
  shows "openaiMessages messages = \<lparr>role = System, content = openaiInstruction\<rparr> # messages"
  using assms by (simp add: openaiMessages_def Let_def AIMessage_eta)

lemma mistralMessages_no_system:
  assumes "\<forall>msg \<in> set messages. role msg \<noteq> System"
  shows "mistralMessages messages = \<lparr>role = System, content = mistralInstruction\<rparr> # messages"
  using assms by (simp add: mistralMessages_def Let_def AIMessage_eta)

text \<open>What each provider function hands to its SDK, and what it makes of the answer.\<close>

lemma fst_generateOpenAI:
  "fst (generateOpenAIChatCompletion api messages model tr) =
     (case openai_create api tr model (openaiMessages messages) of
        Inl e \<Rightarrow> Inl e
      | Inr c \<Rightarrow> Inr (case c of None \<Rightarrow> [] | Some answer \<Rightarrow> answer))"
  by (simp add: generateOpenAIChatCompletion_def Let_def split: sum.splits)

lemma fst_generateMistral:
  "fst (generateMistralChatCompletion api messages model tr) =
     (case mistral_complete api tr model (mistralMessages messages) of
        Inl e \<Rightarrow> Inl e
      | Inr choices \<Rightarrow>
          (case choices of
             None \<Rightarrow> Inl (Error ''Empty response from Mistral API'')
           | Some [] \<Rightarrow> Inl (Error ''Empty response from Mistral API'')
           | Some (c # _) \<Rightarrow>
               Inr (case c of
                      ContentString answer \<Rightarrow> answer
                    | ContentArray chunks \<Rightarrow> concat (map chunkText chunks)
                    | ContentOther \<Rightarrow> [])))"
  by (simp add: generateMistralChatCompletion_def Let_def
      split: sum.splits option.splits list.splits mistralContent.splits)

lemma openaiInstruction_block:
  "\<exists>before after. matchQuickQuestions openaiInstruction =
     Some (before, ''\<newline>Question 1\<newline>Question 2\<newline>Question 3\<newline>Question 4\<newline>'', after)"
  by (simp add: matchQuickQuestions_def openaiInstruction_def QQ_OPEN_def QQ_CLOSE_def
      startsWith_def)

lemma mistralInstruction_block:
  "\<exists>before after. matchQuickQuestions mistralInstruction =
     Some (before, ''\<newline>Question 1\<newline>Question 2\<newline>Question 3\<newline>Question 4\<newline>'', after)"
  by (simp add: matchQuickQuestions_def mistralInstruction_def QQ_OPEN_def QQ_CLOSE_def
      startsWith_def)


text \<open>
  Claim C8. For every history sent to OpenAI or to Mistral: if the history has a system
  message, the request has as many messages, each system message with two line feeds and
  the quick-questions instruction appended to its content, every other message unchanged;
  otherwise the request is a new system message with the instruction, followed by the
  history unchanged. These are the messages of the one request that the provider function
  makes: they are the messages that the SDK call receives, and the result of the function
  is read from the answer to them. The instruction contains the quick-questions block with
  its four lines.
\<close>

theorem systemInstruction_added:
  "((\<exists>msg \<in> set messages. role msg = System) \<longrightarrow>
      length (openaiMessages messages) = length messages \<and>
      length (mistralMessages messages) = length messages \<and>
      (\<forall>i < length messages.
         (role (messages ! i) = System \<longrightarrow>
            openaiMessages messages ! i =
              \<lparr>role = System, content = content (messages ! i) @ ''\<newline>\<newline>'' @ openaiInstruction\<rparr> \<and>
            mistralMessages messages ! i =
              \<lparr>role = System, content = content (messages ! i) @ ''\<newline>\<newline>'' @ mistralInstruction\<rparr>) \<and>
         (role (messages ! i) \<noteq> System \<longrightarrow>
            openaiMessages messages ! i = messages ! i \<and>
            mistralMessages messages ! i = messages ! i))) \<and>
   ((\<forall>msg \<in> set messages. role msg \<noteq> System) \<longrightarrow>
      openaiMessages messages = \<lparr>role = System, content = openaiInstruction\<rparr> # messages \<and>
      mistralMessages messages = \<lparr>role = System, content = mistralInstruction\<rparr> # messages) \<and>
   snd (generateOpenAIChatCompletion api messages model tr) =
     tr @ [OpenAIRequest model (openaiMessages messages)] \<and>
   snd (generateMistralChatCompletion api messages model tr) =
     tr @ [MistralRequest model (mistralMessages messages)] \<and>
   fst (generateOpenAIChatCompletion api messages model tr) =
     (case openai_create api tr model (openaiMessages messages) of
        Inl e \<Rightarrow> Inl e
      | Inr c \<Rightarrow> Inr (case c of None \<Rightarrow> [] | Some answer \<Rightarrow> answer)) \<and>
   fst (generateMistralChatCompletion api messages model tr) =
     (case mistral_complete api tr model (mistralMessages messages) of
        Inl e \<Rightarrow> Inl e
      | Inr choices \<Rightarrow>
          (case choices of
             None \<Rightarrow> Inl (Error ''Empty response from Mistral API'')
           | Some [] \<Rightarrow> Inl (Error ''Empty response from Mistral API'')
           | Some (c # _) \<Rightarrow>
               Inr (case c of
                      ContentString answer \<Rightarrow> answer
                    | ContentArray chunks \<Rightarrow> concat (map chunkText chunks)
                    | ContentOther \<Rightarrow> []))) \<and>
   (\<exists>before after. matchQuickQuestions openaiInstruction =
      Some (before, ''\<newline>Question 1\<newline>Question 2\<newline>Question 3\<newline>Question 4\<newline>'', after)) \<and>
   (\<exists>before after. matchQuickQuestions mistralInstruction =
      Some (before, ''\<newline>Question 1\<newline>Question 2\<newline>Question 3\<newline>Question 4\<newline>'', after))"
proof (intro conjI impI)
  assume s: "\<exists>msg \<in> set messages. role msg = System"
  show "length (openaiMessages messages) = length messages"
    by (simp add: openaiMessages_system[OF s])
  show "length (mistralMessages messages) = length messages"
    by (simp add: mistralMessages_system[OF s])
  show "\<forall>i < length messages.
         (role (messages ! i) = System \<longrightarrow>
            openaiMessages messages ! i =
              \<lparr>role = System, content = content (messages ! i) @ ''\<newline>\<newline>'' @ openaiInstruction\<rparr> \<and>
            mistralMessages messages ! i =
              \<lparr>role = System, content = content (messages ! i) @ ''\<newline>\<newline>'' @ mistralInstruction\<rparr>) \<and>
         (role (messages ! i) \<noteq> System \<longrightarrow>
            openaiMessages messages ! i = messages ! i \<and>
            mistralMessages messages ! i = messages ! i)"
    by (simp add: openaiMessages_system[OF s] mistralMessages_system[OF s])
next
  assume n: "\<forall>msg \<in> set messages. role msg \<noteq> System"
  show "openaiMessages messages = \<lparr>role = System, content = openaiInstruction\<rparr> # messages"
    by (rule openaiMessages_no_system[OF n])
  show "mistralMessages messages = \<lparr>role = System, content = mistralInstruction\<rparr> # messages"
    by (rule mistralMessages_no_system[OF n])
next
  show "snd (generateOpenAIChatCompletion api messages model tr) =
     tr @ [OpenAIRequest model (openaiMessages messages)]"
    by (rule snd_generateOpenAI)
  show "snd (generateMistralChatCompletion api messages model tr) =
     tr @ [MistralRequest model (mistralMessages messages)]"
    by (rule snd_generateMistral)
  show "fst (generateOpenAIChatCompletion api messages model tr) =
     (case openai_create api tr model (openaiMessages messages) of
        Inl e \<Rightarrow> Inl e
      | Inr c \<Rightarrow> Inr (case c of None \<Rightarrow> [] | Some answer \<Rightarrow> answer))"
    by (rule fst_generateOpenAI)
  show "fst (generateMistralChatCompletion api messages model tr) =
     (case mistral_complete api tr model (mistralMessages messages) of
        Inl e \<Rightarrow> Inl e
      | Inr choices \<Rightarrow>
          (case choices of
             None \<Rightarrow> Inl (Error ''Empty response from Mistral API'')
           | Some [] \<Rightarrow> Inl (Error ''Empty response from Mistral API'')
           | Some (c # _) \<Rightarrow>
               Inr (case c of
                      ContentString answer \<Rightarrow> answer
                    | ContentArray chunks \<Rightarrow> concat (map chunkText chunks)
                    | ContentOther \<Rightarrow> [])))"
    by (rule fst_generateMistral)
  show "\<exists>before after. matchQuickQuestions openaiInstruction =
      Some (before, ''\<newline>Question 1\<newline>Question 2\<newline>Question 3\<newline>Question 4\<newline>'', after)"
    by (rule openaiInstruction_block)
  show "\<exists>before after. matchQuickQuestions mistralInstruction =
      Some (before, ''\<newline>Question 1\<newline>Question 2\<newline>Question 3\<newline>Question 4\<newline>'', after)"
    by (rule mistralInstruction_block)
qed

text \<open>
  A history with a system message, for OpenAI; a history without one, for Mistral. A
  provider that answers with the first message it receives answers with the augmented
  system message.
\<close>

theorem systemInstruction_added_witness:
  "openaiMessages [\<lparr>role = System, content = ''Be brief.''\<rparr>, \<lparr>role = User, content = ''Hello''\<rparr>] =
     [\<lparr>role = System, content = ''Be brief.'' @ ''\<newline>\<newline>'' @ openaiInstruction\<rparr>,
      \<lparr>role = User, content = ''Hello''\<rparr>] \<and>
   mistralMessages [\<lparr>role = User, content = ''Hello''\<rparr>] =
     [\<lparr>role = System, content = mistralInstruction\<rparr>, \<lparr>role = User, content = ''Hello''\<rparr>] \<and>
   fst (generateOpenAIChatCompletion echoSdk
          [\<lparr>role = System, content = ''Be brief.''\<rparr>, \<lparr>role = User, content = ''Hello''\<rparr>]
          ''gpt-4o'' []) =
     Inr (''Be brief.'' @ ''\<newline>\<newline>'' @ openaiInstruction) \<and>
   fst (generateMistralChatCompletion echoSdk [\<lparr>role = User, content = ''Hello''\<rparr>]
          ''mistral-large-2'' []) =
     Inr mistralInstruction"
proof -
  let ?h = "[\<lparr>role = System, content = ''Be brief.''\<rparr>, \<lparr>role = User, content = ''Hello''\<rparr>]"
  let ?u = "[\<lparr>role = User, content = ''Hello''\<rparr>]"
  have s: "\<exists>msg \<in> set ?h. role msg = System" by simp
  have n: "\<forall>msg \<in> set ?u. role msg \<noteq> System" by simp
  note th = systemInstruction_added[of ?h echoSdk "''gpt-4o''" "[]"]
  note tu = systemInstruction_added[of ?u echoSdk "''mistral-large-2''" "[]"]
  from th s
  have l: "length (openaiMessages ?h) = length ?h"
    and i: "\<forall>i < length ?h.
         (role (?h ! i) = System \<longrightarrow>
            openaiMessages ?h ! i =
              \<lparr>role = System, content = content (?h ! i) @ ''\<newline>\<newline>'' @ openaiInstruction\<rparr>) \<and>
         (role (?h ! i) \<noteq> System \<longrightarrow> openaiMessages ?h ! i = ?h ! i)"
    by blast+
  from i have "openaiMessages ?h ! 0 = \<lparr>role = System, content = ''Be brief.'' @ ''\<newline>\<newline>'' @ openaiInstruction\<rparr>"
    by simp
  moreover from i have "openaiMessages ?h ! 1 = \<lparr>role = User, content = ''Hello''\<rparr>"
    by simp
  moreover from l have "length (openaiMessages ?h) = 2" by simp
  ultimately have a: "openaiMessages ?h =
     [\<lparr>role = System, content = ''Be brief.'' @ ''\<newline>\<newline>'' @ openaiInstruction\<rparr>,
      \<lparr>role = User, content = ''Hello''\<rparr>]"
    by (simp add: list_eq_iff_nth_eq less_Suc_eq numeral_2_eq_2)
  from tu n
  have b: "mistralMessages ?u = \<lparr>role = System, content = mistralInstruction\<rparr> # ?u" by blast
  from th
  have "fst (generateOpenAIChatCompletion echoSdk ?h ''gpt-4o'' []) =
     (case openai_create echoSdk [] ''gpt-4o'' (openaiMessages ?h) of
        Inl e \<Rightarrow> Inl e
      | Inr c \<Rightarrow> Inr (case c of None \<Rightarrow> [] | Some answer \<Rightarrow> answer))"
    by blast
  then have c: "fst (generateOpenAIChatCompletion echoSdk ?h ''gpt-4o'' []) =
     Inr (''Be brief.'' @ ''\<newline>\<newline>'' @ openaiInstruction)"
    by (simp add: a echoSdk_def)
  from tu
  have "fst (generateMistralChatCompletion echoSdk ?u ''mistral-large-2'' []) =
     (case mistral_complete echoSdk [] ''mistral-large-2'' (mistralMessages ?u) of
        Inl e \<Rightarrow> Inl e
      | Inr choices \<Rightarrow>
          (case choices of
             None \<Rightarrow> Inl (Error ''Empty response from Mistral API'')
           | Some [] \<Rightarrow> Inl (Error ''Empty response from Mistral API'')
           | Some (c # _) \<Rightarrow>
               Inr (case c of
                      ContentString answer \<Rightarrow> answer
                    | ContentArray chunks \<Rightarrow> concat (map chunkText chunks)
                    | ContentOther \<Rightarrow> [])))"
    by blast
  then have d: "fst (generateMistralChatCompletion echoSdk ?u ''mistral-large-2'' []) =
     Inr mistralInstruction"
    by (simp add: b echoSdk_def)
  from a b c d show ?thesis by simp
qed


subsection \<open>The messages sent to Google\<close>

text \<open>
  Claim C3 says that the instruction, with the content of the system messages, is folded
  into the first user message of the request. The loop folds it only into a user message
  that is the first message of the request: after an assistant message the first user
  message is sent as it is and the instruction is not sent at all, and the content of a
  system message that comes after the first message is dropped.
\<close>

theorem geminiMessages_assistant_first:
  "geminiMessages [\<lparr>role = Assistant, content = ''Welcome''\<rparr>, \<lparr>role = User, content = ''Hello''\<rparr>] =
     [\<lparr>geminiRole = ''model'', parts = [''Welcome'']\<rparr>, \<lparr>geminiRole = ''user'', parts = [''Hello'']\<rparr>] \<and>
   geminiMessages [\<lparr>role = User, content = ''Hello''\<rparr>, \<lparr>role = System, content = ''Be brief.''\<rparr>] =
     [\<lparr>geminiRole = ''user'',
       parts = [quickQuestionsInstructions @ ''\<newline>\<newline>'' @ ''Hello'']\<rparr>]"
  by (simp add: geminiMessages_def)

text \<open>
  What holds: the request has no system entry, assistant messages become \<open>model\<close>
  entries, and when the first message that is not a system message is a user message, it
  carries the instruction and the system contents before it.
\<close>

lemma geminiLoop_roles:
  assumes "\<forall>g \<in> set acc. geminiRole g \<in> {''model'', ''user''}"
  shows "\<forall>g \<in> set (snd (geminiLoop messages systemPrompt acc)). geminiRole g \<in> {''model'', ''user''}"
  using assms
  by (induction messages systemPrompt acc rule: geminiLoop.induct) (auto simp: Let_def)

lemma geminiLoop_map_roles:
  "map geminiRole (snd (geminiLoop messages systemPrompt acc)) =
     map geminiRole acc @
     map (\<lambda>msg. if role msg = Assistant then ''model'' else ''user'')
       (filter (\<lambda>msg. role msg \<noteq> System) messages)"
  by (induction messages systemPrompt acc rule: geminiLoop.induct) (auto simp: Let_def)

lemma geminiMessages_roles:
  "map geminiRole (geminiMessages messages) =
     (if \<forall>msg \<in> set messages. role msg = System then [''user'']
      else map (\<lambda>msg. if role msg = Assistant then ''model'' else ''user'')
             (filter (\<lambda>msg. role msg \<noteq> System) messages))"
proof -
  obtain sp fm where r: "geminiLoop messages (quickQuestionsInstructions @ ''\<newline>\<newline>'') [] = (sp, fm)"
    by (cases "geminiLoop messages (quickQuestionsInstructions @ ''\<newline>\<newline>'') []")
  from geminiLoop_map_roles[of messages "quickQuestionsInstructions @ ''\<newline>\<newline>''" "[]"] r
  have m: "map geminiRole fm = map (\<lambda>msg. if role msg = Assistant then ''model'' else ''user'')
       (filter (\<lambda>msg. role msg \<noteq> System) messages)" by simp
  have keep: "snd (geminiLoop ms p acc) = acc \<Longrightarrow> p \<noteq> [] \<Longrightarrow> fst (geminiLoop ms p acc) \<noteq> []"
    for ms p acc
  proof (induction ms p acc rule: geminiLoop.induct)
    case (1 systemPrompt formattedMessages)
    then show ?case by simp
  next
    case (2 msg rest systemPrompt formattedMessages)
    from geminiLoop_map_roles[of "msg # rest" systemPrompt formattedMessages] "2.prems"(1)
    have "role msg = System" by (auto split: if_splits)
    with 2 show ?case by simp
  qed
  show ?thesis
  proof (cases "\<forall>msg \<in> set messages. role msg = System")
    case True
    then have "filter (\<lambda>msg. role msg \<noteq> System) messages = []" by (simp add: filter_empty_conv)
    with m have fm: "fm = []" by simp
    with r keep[of messages "quickQuestionsInstructions @ ''\<newline>\<newline>''" "[]"] have "sp \<noteq> []" by simp
    with r fm True show ?thesis by (simp add: geminiMessages_def)
  next
    case False
    then have "filter (\<lambda>msg. role msg \<noteq> System) messages \<noteq> []" by (simp add: filter_empty_conv)
    with m have "fm \<noteq> []" by auto
    with r m False show ?thesis by (simp add: geminiMessages_def)
  qed
qed

lemma geminiMessages_first_user:
  assumes "role msg = User" and "\<forall>m \<in> set systems. role m = System"
  shows "\<exists>rest. geminiMessages (systems @ msg # later) =
     \<lparr>geminiRole = ''user'',
      parts = [quickQuestionsInstructions @ ''\<newline>\<newline>'' @
               concat (map (\<lambda>m. content m @ ''\<newline>\<newline>'') systems) @ content msg]\<rparr> # rest"
proof -
  have loop: "geminiLoop (systems @ msg # later) sp [] =
      geminiLoop later []
        [\<lparr>geminiRole = ''user'',
          parts = [sp @ concat (map (\<lambda>m. content m @ ''\<newline>\<newline>'') systems) @ content msg]\<rparr>]"
    if "sp \<noteq> []" for sp
    using assms(2) that
  proof (induction systems arbitrary: sp)
    case Nil
    with assms(1) show ?case by simp
  next
    case (Cons a systems)
    then show ?case by simp
  qed
  have pre: "\<exists>rest. snd (geminiLoop ms sp (g # acc)) = g # rest" for ms sp g acc
    by (induction ms sp "g # acc" arbitrary: acc rule: geminiLoop.induct) (auto simp: Let_def)
  obtain sp' fm where r: "geminiLoop (systems @ msg # later) (quickQuestionsInstructions @ ''\<newline>\<newline>'') [] = (sp', fm)"
    by (cases "geminiLoop (systems @ msg # later) (quickQuestionsInstructions @ ''\<newline>\<newline>'') []")
  from pre[of later "[]" _ "[]"] loop[of "quickQuestionsInstructions @ ''\<newline>\<newline>''"] r
  obtain rest where "fm = \<lparr>geminiRole = ''user'',
          parts = [(quickQuestionsInstructions @ ''\<newline>\<newline>'') @ concat (map (\<lambda>m. content m @ ''\<newline>\<newline>'') systems) @ content msg]\<rparr> # rest"
    by (metis snd_conv append_is_Nil_conv list.distinct(1))
  with r show ?thesis by (simp add: geminiMessages_def)
qed


subsection \<open>Title generation\<close>

text \<open>
  Claim C6. For every first message and model selector generateConversationTitle returns
  a title and never an error. If the first attempt succeeds its title is returned. If it
  fails and the Google key is configured, exactly one more request is made, to Google
  with the model \<open>gemini-2.0-flash\<close>, and its answer is the title, or
  \<open>New Conversation\<close> if it fails as well; if the key is not configured no request is made
  and the title is \<open>New Conversation\<close>.
\<close>

theorem generateConversationTitle_never_fails:
  "(\<exists>title tr'. generateConversationTitle api e firstUserMessage modelArg tr = (Inr title, tr')) \<and>
   (\<forall>provider modelName.
      parseModel (case modelArg of None \<Rightarrow> ''gpt-3.5-turbo'' | Some m \<Rightarrow> m) = (provider, modelName) \<longrightarrow>
      (\<forall>title tr1.
         titleAttempt api firstUserMessage provider modelName tr = (Inr title, tr1) \<longrightarrow>
         generateConversationTitle api e firstUserMessage modelArg tr = (Inr title, tr1)) \<and>
      (\<forall>err tr1.
         titleAttempt api firstUserMessage provider modelName tr = (Inl err, tr1) \<longrightarrow>
         (configured (GOOGLE_API_KEY e) \<longrightarrow>
            generateConversationTitle api e firstUserMessage modelArg tr =
              (case gemini_generateContent api tr1 ''gemini-2.0-flash''
                      (geminiMessages
                         [\<lparr>role = User, content = TITLE_PROMPT @ ''\<newline>\<newline>'' @ firstUserMessage\<rparr>]) of
                 Inl fallbackError \<Rightarrow> Inr ''New Conversation''
               | Inr title \<Rightarrow> Inr title,
               tr1 @ [GoogleRequest ''gemini-2.0-flash''
                        (geminiMessages
                           [\<lparr>role = User, content = TITLE_PROMPT @ ''\<newline>\<newline>'' @ firstUserMessage\<rparr>])])) \<and>
         (\<not> configured (GOOGLE_API_KEY e) \<longrightarrow>
            generateConversationTitle api e firstUserMessage modelArg tr =
              (Inr ''New Conversation'', tr1))))"
proof (intro conjI allI impI)
  show "\<exists>title tr'. generateConversationTitle api e firstUserMessage modelArg tr = (Inr title, tr')"
    by (auto simp: generateConversationTitle_def titleFallback_def
        split: prod.splits sum.splits)
next
  fix provider modelName title tr1
  assume "parseModel (case modelArg of None \<Rightarrow> ''gpt-3.5-turbo'' | Some m \<Rightarrow> m) = (provider, modelName)"
    and "titleAttempt api firstUserMessage provider modelName tr = (Inr title, tr1)"
  then show "generateConversationTitle api e firstUserMessage modelArg tr = (Inr title, tr1)"
    by (simp add: generateConversationTitle_def)
next
  fix provider modelName err tr1
  assume p: "parseModel (case modelArg of None \<Rightarrow> ''gpt-3.5-turbo'' | Some m \<Rightarrow> m) = (provider, modelName)"
    and a: "titleAttempt api firstUserMessage provider modelName tr = (Inl err, tr1)"
  then have eq: "generateConversationTitle api e firstUserMessage modelArg tr =
      titleFallback api e firstUserMessage tr1"
    by (simp add: generateConversationTitle_def)
  {
    assume "configured (GOOGLE_API_KEY e)"
    then show "generateConversationTitle api e firstUserMessage modelArg tr =
              (case gemini_generateContent api tr1 ''gemini-2.0-flash''
                      (geminiMessages
                         [\<lparr>role = User, content = TITLE_PROMPT @ ''\<newline>\<newline>'' @ firstUserMessage\<rparr>]) of
                 Inl fallbackError \<Rightarrow> Inr ''New Conversation''
               | Inr title \<Rightarrow> Inr title,
               tr1 @ [GoogleRequest ''gemini-2.0-flash''
                        (geminiMessages
                           [\<lparr>role = User, content = TITLE_PROMPT @ ''\<newline>\<newline>'' @ firstUserMessage\<rparr>])])"
      by (simp add: eq titleFallback_def generateGoogleChatCompletion_def Let_def
          split: sum.splits)
  }
  {
    assume "\<not> configured (GOOGLE_API_KEY e)"
    then show "generateConversationTitle api e firstUserMessage modelArg tr =
              (Inr ''New Conversation'', tr1)"
      by (simp add: eq titleFallback_def)
  }
qed

text \<open>Scenario E (every provider down, no key), and the same with all keys.\<close>

theorem generateConversationTitle_never_fails_witness:
  "generateConversationTitle failingSdk noKeys ''Hello'' (Some ''openai:gpt-4o'') [] =
     (Inr ''New Conversation'',
      [OpenAIRequest ''gpt-4o''
         (openaiMessages [\<lparr>role = System, content = TITLE_PROMPT\<rparr>,
                          \<lparr>role = User, content = ''Hello''\<rparr>])]) \<and>
   generateConversationTitle failingSdk allKeys ''Hello'' None [] =
     (Inr ''New Conversation'',
      [OpenAIRequest ''gpt-3.5-turbo''
         (openaiMessages [\<lparr>role = System, content = TITLE_PROMPT\<rparr>,
                          \<lparr>role = User, content = ''Hello''\<rparr>]),
       GoogleRequest ''gemini-2.0-flash''
         (geminiMessages [\<lparr>role = User, content = TITLE_PROMPT @ ''\<newline>\<newline>'' @ ''Hello''\<rparr>])])"
proof -
  let ?sent = "openaiMessages [\<lparr>role = System, content = TITLE_PROMPT\<rparr>,
                          \<lparr>role = User, content = ''Hello''\<rparr>]"
  have p: "parseModel (case Some ''openai:gpt-4o'' of None \<Rightarrow> ''gpt-3.5-turbo'' | Some m \<Rightarrow> m) =
      (''openai'', ''gpt-4o'')"
    by (simp add: parseModel_def)
  have a: "titleAttempt failingSdk ''Hello'' ''openai'' ''gpt-4o'' [] =
      (Inl (Error ''openai down''), [OpenAIRequest ''gpt-4o'' ?sent])"
    by (simp add: titleAttempt_def generateOpenAIChatCompletion_def failingSdk_def Let_def)
  have n: "\<not> configured (GOOGLE_API_KEY noKeys)" by (simp add: noKeys_def configured_def)
  have p': "parseModel (case None of None \<Rightarrow> ''gpt-3.5-turbo'' | Some m \<Rightarrow> m) =
      (''openai'', ''gpt-3.5-turbo'')"
    by (simp add: parseModel_def)
  have a': "titleAttempt failingSdk ''Hello'' ''openai'' ''gpt-3.5-turbo'' [] =
      (Inl (Error ''openai down''), [OpenAIRequest ''gpt-3.5-turbo'' ?sent])"
    by (simp add: titleAttempt_def generateOpenAIChatCompletion_def failingSdk_def Let_def)
  have c: "configured (GOOGLE_API_KEY allKeys)" by (simp add: allKeys_def configured_def)
  from generateConversationTitle_never_fails[of failingSdk noKeys "''Hello''" "Some ''openai:gpt-4o''" "[]"]
    p a n
  have "generateConversationTitle failingSdk noKeys ''Hello'' (Some ''openai:gpt-4o'') [] =
     (Inr ''New Conversation'', [OpenAIRequest ''gpt-4o'' ?sent])"
    by blast
  moreover
  from generateConversationTitle_never_fails[of failingSdk allKeys "''Hello''" None "[]"]
    p' a' c
  have "generateConversationTitle failingSdk allKeys ''Hello'' None [] =
     (case gemini_generateContent failingSdk [OpenAIRequest ''gpt-3.5-turbo'' ?sent] ''gemini-2.0-flash''
                      (geminiMessages
                         [\<lparr>role = User, content = TITLE_PROMPT @ ''\<newline>\<newline>'' @ ''Hello''\<rparr>]) of
                 Inl fallbackError \<Rightarrow> Inr ''New Conversation''
               | Inr title \<Rightarrow> Inr title,
               [OpenAIRequest ''gpt-3.5-turbo'' ?sent] @ [GoogleRequest ''gemini-2.0-flash''
                        (geminiMessages
                           [\<lparr>role = User, content = TITLE_PROMPT @ ''\<newline>\<newline>'' @ ''Hello''\<rparr>])])"
    by blast
  ultimately show ?thesis by (simp add: failingSdk_def)
qed

text \<open>
  Claim C10. For every first message and every model selector whose provider is neither
  \<open>openai\<close> nor \<open>google\<close>, the first attempt of generateConversationTitle is the OpenAI
  call with the model \<open>gpt-3.5-turbo\<close>, whatever the provider and the model of the
  selector: the first request is that one, any later request is the Google fallback, and
  no request goes to Mistral.
\<close>

theorem generateConversationTitle_default_openai:
  assumes "parseModel (case modelArg of None \<Rightarrow> ''gpt-3.5-turbo'' | Some m \<Rightarrow> m) = (provider, modelName)"
    and "provider \<noteq> ''openai''" and "provider \<noteq> ''google''"
  shows "titleAttempt api firstUserMessage provider modelName tr =
           generateOpenAIChatCompletion api
             [\<lparr>role = System, content = TITLE_PROMPT\<rparr>, \<lparr>role = User, content = firstUserMessage\<rparr>]
             ''gpt-3.5-turbo'' tr \<and>
         (\<exists>rest. snd (generateConversationTitle api e firstUserMessage modelArg tr) =
            tr @ OpenAIRequest ''gpt-3.5-turbo''
                   (openaiMessages [\<lparr>role = System, content = TITLE_PROMPT\<rparr>,
                                    \<lparr>role = User, content = firstUserMessage\<rparr>]) # rest \<and>
            (\<forall>req \<in> set rest. requestTarget req = (''google'', ''gemini-2.0-flash''))) \<and>
         (\<forall>req \<in> set (drop (length tr) (snd (generateConversationTitle api e firstUserMessage modelArg tr))).
            fst (requestTarget req) \<noteq> ''mistral'')"
proof -
  let ?ms = "[\<lparr>role = System, content = TITLE_PROMPT\<rparr>, \<lparr>role = User, content = firstUserMessage\<rparr>]"
  let ?first = "OpenAIRequest ''gpt-3.5-turbo'' (openaiMessages ?ms)"
  have t: "titleAttempt api firstUserMessage provider modelName tr =
           generateOpenAIChatCompletion api ?ms ''gpt-3.5-turbo'' tr"
    using assms(2,3) by (simp add: titleAttempt_def)
  obtain r where r: "generateOpenAIChatCompletion api ?ms ''gpt-3.5-turbo'' tr = (r, tr @ [?first])"
    using snd_generateOpenAI[of api ?ms "''gpt-3.5-turbo''" tr]
    by (cases "generateOpenAIChatCompletion api ?ms ''gpt-3.5-turbo'' tr") simp
  have "\<exists>rest. snd (generateConversationTitle api e firstUserMessage modelArg tr) =
            tr @ ?first # rest \<and>
            (\<forall>req \<in> set rest. requestTarget req = (''google'', ''gemini-2.0-flash''))"
  proof (cases r)
    case (Inr title)
    with assms(1) t r have "snd (generateConversationTitle api e firstUserMessage modelArg tr) = tr @ ?first # []"
      by (simp add: generateConversationTitle_def)
    then show ?thesis by (intro exI[of _ "[]"]) simp
  next
    case (Inl err)
    with assms(1) t r have eq: "generateConversationTitle api e firstUserMessage modelArg tr =
        titleFallback api e firstUserMessage (tr @ [?first])"
      by (simp add: generateConversationTitle_def)
    show ?thesis
    proof (cases "configured (GOOGLE_API_KEY e)")
      case True
      let ?g = "GoogleRequest ''gemini-2.0-flash''
         (geminiMessages [\<lparr>role = User, content = TITLE_PROMPT @ ''\<newline>\<newline>'' @ firstUserMessage\<rparr>])"
      from True have "snd (titleFallback api e firstUserMessage (tr @ [?first])) = tr @ ?first # [?g]"
        using snd_generateGoogle[of api "[\<lparr>role = User, content = TITLE_PROMPT @ ''\<newline>\<newline>'' @ firstUserMessage\<rparr>]"
            "''gemini-2.0-flash''" "tr @ [?first]"]
        by (auto simp: titleFallback_def split: prod.splits sum.splits)
      then show ?thesis unfolding eq by (intro exI[of _ "[?g]"]) (simp add: requestTarget_def)
    next
      case False
      then have "snd (titleFallback api e firstUserMessage (tr @ [?first])) = tr @ ?first # []"
        by (simp add: titleFallback_def)
      then show ?thesis unfolding eq by (intro exI[of _ "[]"]) simp
    qed
  qed
  then obtain rest where rest: "snd (generateConversationTitle api e firstUserMessage modelArg tr) =
            tr @ ?first # rest" "\<forall>req \<in> set rest. requestTarget req = (''google'', ''gemini-2.0-flash'')"
    by blast
  have "\<forall>req \<in> set (?first # rest). fst (requestTarget req) \<noteq> ''mistral''"
    using rest(2) by (auto simp: requestTarget_def)
  then have "\<forall>req \<in> set (drop (length tr) (snd (generateConversationTitle api e firstUserMessage modelArg tr))).
            fst (requestTarget req) \<noteq> ''mistral''"
    by (simp add: rest(1))
  with t rest show ?thesis by blast
qed

text \<open>The selector \<open>mistral:mistral-large-2\<close>.\<close>

theorem generateConversationTitle_default_openai_witness:
  "titleAttempt failingSdk ''Hello'' ''mistral'' ''mistral-large-2'' [] =
     generateOpenAIChatCompletion failingSdk
       [\<lparr>role = System, content = TITLE_PROMPT\<rparr>, \<lparr>role = User, content = ''Hello''\<rparr>]
       ''gpt-3.5-turbo'' [] \<and>
   hd (snd (generateConversationTitle failingSdk allKeys ''Hello''
              (Some ''mistral:mistral-large-2'') [])) =
     OpenAIRequest ''gpt-3.5-turbo''
       (openaiMessages [\<lparr>role = System, content = TITLE_PROMPT\<rparr>,
                        \<lparr>role = User, content = ''Hello''\<rparr>])"
proof -
  have p: "parseModel (case Some ''mistral:mistral-large-2'' of None \<Rightarrow> ''gpt-3.5-turbo'' | Some m \<Rightarrow> m) =
      (''mistral'', ''mistral-large-2'')"
    by (simp add: parseModel_def)
  have a: "''mistral'' \<noteq> ''openai''" and b: "''mistral'' \<noteq> ''google''" by simp_all
  from generateConversationTitle_default_openai[OF p a b, of failingSdk "''Hello''" "[]" allKeys]
  show ?thesis by auto
qed

end
